theory Spec2Isabelle
  imports Complex_Main
begin

section \<open>JavaScript values used by the domain layer\<close>

text \<open>
  A JavaScript string is a sequence of UTF-16 code units, here a list of numbers; a
  number above 65535 does not occur in a string of the program. \<open>str\<close> turns the ASCII
  text of a literal of the source into such a string.
\<close>

type_synonym jsstring = "nat list"

definition str :: "string \<Rightarrow> jsstring" where
  "str s = map of_char s"

text \<open>
  Exceptions are values. The three constructors are the three JavaScript error classes
  that the modelled code can raise; the string is the message.
\<close>

datatype error = Error jsstring | TypeError jsstring | RangeError jsstring

text \<open>
  A JavaScript \<open>number\<close>. A finite double is represented by the rational it denotes, with
  \<open>Finite 0\<close> for the positive zero and \<open>NegZero\<close> for the negative zero; the modelled
  code never does arithmetic on these numbers, it only compares them with constants and
  tests them for truthiness, and both agree on a double and on its value. \<open>NaN\<close> and the
  infinities are kept, because every comparison with \<open>NaN\<close> is false. The two zeros
  compare equal to each other and are both falsy.
\<close>

datatype jsnum = Finite rat | NegZero | NaN | PosInfinity | NegInfinity

definition unsigned_zero :: "jsnum \<Rightarrow> jsnum" where
  "unsigned_zero a = (case a of NegZero \<Rightarrow> Finite 0 | _ \<Rightarrow> a)"

definition js_lt :: "jsnum \<Rightarrow> jsnum \<Rightarrow> bool" where
  "js_lt a b =
     (case (unsigned_zero a, unsigned_zero b) of
        (Finite x, Finite y) \<Rightarrow> x < y
      | (Finite x, PosInfinity) \<Rightarrow> True
      | (NegInfinity, Finite y) \<Rightarrow> True
      | (NegInfinity, PosInfinity) \<Rightarrow> True
      | _ \<Rightarrow> False)"

definition js_gt :: "jsnum \<Rightarrow> jsnum \<Rightarrow> bool" where
  "js_gt a b = js_lt b a"

text \<open>Truthiness of a number (\<open>!x\<close>, \<open>x || y\<close>): both zeros and \<open>NaN\<close> are falsy.\<close>

definition truthy_num :: "jsnum \<Rightarrow> bool" where
  "truthy_num n = (n \<noteq> NaN \<and> n \<noteq> Finite 0 \<and> n \<noteq> NegZero)"

text \<open>\<open>Number.isInteger\<close>: a finite number without fractional part.\<close>

definition isInteger :: "jsnum \<Rightarrow> bool" where
  "isInteger n =
     (case n of Finite x \<Rightarrow> of_int \<lfloor>x\<rfloor> = x | NegZero \<Rightarrow> True | _ \<Rightarrow> False)"

text \<open>
  \<open>String.prototype.trim\<close> removes the white space and the line terminators of
  ECMAScript at both ends: U+0009 to U+000D, U+0020, U+00A0, U+1680, U+2000 to U+200A,
  U+2028, U+2029, U+202F, U+205F, U+3000 and U+FEFF. The class \<^verbatim>\<open>\s\<close> of a regular
  expression is the same set. All of them are single code units.
\<close>

definition isWhiteSpace :: "nat \<Rightarrow> bool" where
  "isWhiteSpace c =
     (c \<in> {9, 10, 11, 12, 13, 32, 160, 5760, 8232, 8233, 8239, 8287, 12288, 65279}
      \<or> (8192 \<le> c \<and> c \<le> 8202))"

definition trim :: "jsstring \<Rightarrow> jsstring" where
  "trim s = rev (dropWhile isWhiteSpace (rev (dropWhile isWhiteSpace s)))"

text \<open>\<open>Array.prototype.join\<close> on an array of strings.\<close>

fun join :: "jsstring \<Rightarrow> jsstring list \<Rightarrow> jsstring" where
  "join sep [] = []"
| "join sep [x] = x"
| "join sep (x # y # ys) = x @ sep @ join sep (y # ys)"

text \<open>
  A \<open>Date\<close> object holds a time value in milliseconds since the epoch, or is an invalid
  date (its time value is \<open>NaN\<close>). The built-ins that convert between dates and strings,
  and the Unicode lower-casing of a string, belong to the platform, not to the
  repository, and are parameters of the model: \<open>Date_toISOString\<close> renders a time value,
  \<open>Date_parse\<close> is \<open>new Date(string)\<close> and \<open>String_toLowerCase\<close> is
  \<open>String.prototype.toLowerCase\<close>.
\<close>

datatype date = Date int | InvalidDate

record platform =
  Date_toISOString :: "int \<Rightarrow> jsstring"
  Date_parse :: "jsstring \<Rightarrow> date"
  String_toLowerCase :: "jsstring \<Rightarrow> jsstring"

text \<open>
  What the Unicode character database says about lower-casing as far as ASCII letters
  are concerned. A capital ASCII letter has the small letter as its lower case, and so has
  U+212A KELVIN SIGN the letter k; a small ASCII letter is its own lower case. A string of
  these code units is lower-cased unit by unit. No other code point has a lower case that
  consists of small ASCII letters, so a string whose lower case consists of small ASCII
  letters has only these code units.
\<close>

definition isSmallLetter :: "nat \<Rightarrow> bool" where
  "isSmallLetter u = (97 \<le> u \<and> u \<le> 122)"

definition isCapitalLetter :: "nat \<Rightarrow> bool" where
  "isCapitalLetter u = (65 \<le> u \<and> u \<le> 90)"

definition KELVIN_SIGN :: nat where
  "KELVIN_SIGN = 8490"

definition lowerUnit :: "nat \<Rightarrow> nat" where
  "lowerUnit u =
     (if isCapitalLetter u then u + 32 else if u = KELVIN_SIGN then 107 else u)"

definition hasSmallLetter :: "nat \<Rightarrow> bool" where
  "hasSmallLetter u = (isSmallLetter u \<or> isCapitalLetter u \<or> u = KELVIN_SIGN)"

definition unicode_lower_case :: "platform \<Rightarrow> bool" where
  "unicode_lower_case js =
     (\<forall>s. (list_all hasSmallLetter s \<longrightarrow> String_toLowerCase js s = map lowerUnit s)
        \<and> (list_all isSmallLetter (String_toLowerCase js s) \<longrightarrow> list_all hasSmallLetter s))"

definition toISOString :: "platform \<Rightarrow> date \<Rightarrow> error + jsstring" where
  "toISOString js d =
     (case d of
        InvalidDate \<Rightarrow> Inl (RangeError (str ''Invalid time value''))
      | Date t \<Rightarrow> Inr (Date_toISOString js t))"

section \<open>The value object ProductCategory\<close>

datatype ProductCategory = ProductCategory (category_value: jsstring)

definition VALID_CATEGORIES :: "jsstring list" where
  "VALID_CATEGORIES =
     [str ''electronics'', str ''clothing'', str ''books'', str ''home'', str ''sports'',
      str ''toys'', str ''food'', str ''health'', str ''beauty'', str ''other'']"

definition validateCategory :: "platform \<Rightarrow> jsstring \<Rightarrow> error option" where
  "validateCategory js category =
     (if category = [] \<or> length (trim category) = 0
      then Some (Error (str ''Category cannot be empty''))
      else
        let normalizedCategory = String_toLowerCase js category in
        if normalizedCategory \<notin> set VALID_CATEGORIES
        then Some (Error (str ''Invalid category: '' @ category @ str ''. Valid categories are: ''
                          @ join (str '', '') VALID_CATEGORIES))
        else None)"

definition ProductCategory_new :: "platform \<Rightarrow> jsstring \<Rightarrow> error + ProductCategory" where
  "ProductCategory_new js v =
     (case validateCategory js v of
        Some e \<Rightarrow> Inl e
      | None \<Rightarrow> Inr (ProductCategory (String_toLowerCase js v)))"

definition category_equals :: "ProductCategory \<Rightarrow> ProductCategory \<Rightarrow> bool" where
  "category_equals a b = (category_value a = category_value b)"

text \<open>
  The specification's wording "matches case-insensitively", stated without reference to
  the constructor or to the platform: the input has the length of the category, and each
  of its code units is the letter of the category at that position, or the capital of
  that letter, or, for the letter k, the KELVIN SIGN, which Unicode makes a capital of k.
\<close>

definition sameLetter :: "nat \<Rightarrow> nat \<Rightarrow> bool" where
  "sameLetter x y =
     (x = y \<or> (isCapitalLetter x \<and> x + 32 = y) \<or> (x = KELVIN_SIGN \<and> y = 107))"

definition equalsIgnoreCase :: "jsstring \<Rightarrow> jsstring \<Rightarrow> bool" where
  "equalsIgnoreCase s c = list_all2 sameLetter s c"

section \<open>The entity Product\<close>

record Product =
  pid :: jsstring
  name :: jsstring
  description :: jsstring
  price :: jsnum
  category :: ProductCategory
  inStock :: bool
  stockQuantity :: jsnum
  createdAt :: date
  updatedAt :: date

definition validateProduct :: "Product \<Rightarrow> error option" where
  "validateProduct p =
     (if pid p = [] then Some (Error (str ''Product ID is required''))
      else if name p = [] \<or> length (trim (name p)) = 0
        then Some (Error (str ''Product name cannot be empty''))
      else if js_lt (price p) (Finite 0) then Some (Error (str ''Price cannot be negative''))
      else if js_lt (stockQuantity p) (Finite 0)
        then Some (Error (str ''Stock quantity cannot be negative''))
      else None)"

text \<open>
  The constructor with all eight arguments given. The defaults of the last three
  (\<open>0\<close>, \<open>new Date()\<close>, \<open>new Date()\<close>) are supplied by the callers below, which read
  the clock as the argument \<open>now\<close>; the readings of one call are taken to be the same
  millisecond.
\<close>

definition Product_new ::
  "jsstring \<Rightarrow> jsstring \<Rightarrow> jsstring \<Rightarrow> jsnum \<Rightarrow> ProductCategory \<Rightarrow> jsnum \<Rightarrow> date \<Rightarrow> date
     \<Rightarrow> error + Product" where
  "Product_new i n d pr c q ca ua =
     (let this = \<lparr> pid = i, name = n, description = d, price = pr, category = c,
                   inStock = js_gt q (Finite 0), stockQuantity = q,
                   createdAt = ca, updatedAt = ua \<rparr>
      in case validateProduct this of Some e \<Rightarrow> Inl e | None \<Rightarrow> Inr this)"

text \<open>
  A mutator returns how the call completed (\<open>None\<close>: normally, \<open>Some e\<close>: it threw \<open>e\<close>)
  together with the state of the object afterwards, so that what a throwing call leaves
  behind is part of the model.
\<close>

definition updateStock :: "int \<Rightarrow> jsnum \<Rightarrow> Product \<Rightarrow> error option \<times> Product" where
  "updateStock now quantity this =
     (if js_lt quantity (Finite 0)
      then (Some (Error (str ''Stock quantity cannot be negative'')), this)
      else (None, this\<lparr> stockQuantity := quantity,
                         inStock := js_gt quantity (Finite 0),
                         updatedAt := Date now \<rparr>))"

definition updatePrice :: "int \<Rightarrow> jsnum \<Rightarrow> Product \<Rightarrow> error option \<times> Product" where
  "updatePrice now pr this =
     (if js_lt pr (Finite 0)
      then (Some (Error (str ''Price cannot be negative'')), this)
      else (None, this\<lparr> price := pr, updatedAt := Date now \<rparr>))"

definition updateDetails ::
  "int \<Rightarrow> jsstring \<Rightarrow> jsstring \<Rightarrow> ProductCategory \<Rightarrow> Product \<Rightarrow> error option \<times> Product" where
  "updateDetails now n d c this =
     (if n = [] \<or> length (trim n) = 0
      then (Some (Error (str ''Product name cannot be empty'')), this)
      else (None, this\<lparr> name := n, description := d, category := c,
                         updatedAt := Date now \<rparr>))"

definition create ::
  "int \<Rightarrow> jsstring \<Rightarrow> jsstring \<Rightarrow> jsstring \<Rightarrow> jsnum \<Rightarrow> ProductCategory \<Rightarrow> jsnum option
     \<Rightarrow> error + Product" where
  "create now i n d pr c q =
     Product_new i n d pr c (case q of None \<Rightarrow> Finite 0 | Some v \<Rightarrow> v) (Date now) (Date now)"

text \<open>The argument of \<open>fromPrimitives\<close> and the result of \<open>toPrimitives\<close>.\<close>

record primitives =
  d_id :: jsstring
  d_name :: jsstring
  d_description :: jsstring
  d_price :: jsnum
  d_category :: jsstring
  d_stockQuantity :: "jsnum option"
  d_createdAt :: "jsstring option"
  d_updatedAt :: "jsstring option"

record ProductDto =
  dto_id :: jsstring
  dto_name :: jsstring
  dto_description :: jsstring
  dto_price :: jsnum
  dto_category :: jsstring
  dto_inStock :: bool
  dto_stockQuantity :: jsnum
  dto_createdAt :: jsstring
  dto_updatedAt :: jsstring

text \<open>
  \<open>data.stockQuantity || 0\<close> and \<open>data.createdAt ? new Date(data.createdAt) : new Date()\<close>:
  an absent field is \<open>undefined\<close>, and so falsy; a present one is falsy when it is zero or
  \<open>NaN\<close>, or the empty string. The category is constructed while the arguments are
  evaluated, before the constructor of the product runs.
\<close>

definition stockQuantity_or_0 :: "jsnum option \<Rightarrow> jsnum" where
  "stockQuantity_or_0 q =
     (case q of None \<Rightarrow> Finite 0 | Some v \<Rightarrow> if truthy_num v then v else Finite 0)"

definition date_or_now :: "platform \<Rightarrow> int \<Rightarrow> jsstring option \<Rightarrow> date" where
  "date_or_now js now s =
     (case s of
        None \<Rightarrow> Date now
      | Some v \<Rightarrow> if v \<noteq> [] then Date_parse js v else Date now)"

definition fromPrimitives :: "platform \<Rightarrow> int \<Rightarrow> primitives \<Rightarrow> error + Product" where
  "fromPrimitives js now data =
     (case ProductCategory_new js (d_category data) of
        Inl e \<Rightarrow> Inl e
      | Inr c \<Rightarrow>
          Product_new (d_id data) (d_name data) (d_description data) (d_price data) c
            (stockQuantity_or_0 (d_stockQuantity data))
            (date_or_now js now (d_createdAt data))
            (date_or_now js now (d_updatedAt data)))"

definition toPrimitives :: "platform \<Rightarrow> Product \<Rightarrow> error + ProductDto" where
  "toPrimitives js this =
     (case toISOString js (createdAt this) of
        Inl e \<Rightarrow> Inl e
      | Inr c \<Rightarrow>
         (case toISOString js (updatedAt this) of
            Inl e \<Rightarrow> Inl e
          | Inr u \<Rightarrow>
              Inr \<lparr> dto_id = pid this, dto_name = name this,
                    dto_description = description this, dto_price = price this,
                    dto_category = category_value (category this),
                    dto_inStock = inStock this, dto_stockQuantity = stockQuantity this,
                    dto_createdAt = c, dto_updatedAt = u \<rparr>))"

text \<open>
  A DTO handed to \<open>fromPrimitives\<close>: every optional field is present, and the extra
  field \<open>inStock\<close> is not read.
\<close>

definition as_primitives :: "ProductDto \<Rightarrow> primitives" where
  "as_primitives d =
     \<lparr> d_id = dto_id d, d_name = dto_name d, d_description = dto_description d,
       d_price = dto_price d, d_category = dto_category d,
       d_stockQuantity = Some (dto_stockQuantity d),
       d_createdAt = Some (dto_createdAt d), d_updatedAt = Some (dto_updatedAt d) \<rparr>"

text \<open>
  The round trip of the specification: \<open>toPrimitives\<close> succeeds on the product,
  \<open>fromPrimitives\<close> succeeds on its result, and \<open>toPrimitives\<close> of the entity so built
  is the same DTO.
\<close>

definition round_trips :: "platform \<Rightarrow> int \<Rightarrow> Product \<Rightarrow> bool" where
  "round_trips js now p =
     (case toPrimitives js p of
        Inl e \<Rightarrow> False
      | Inr dto \<Rightarrow>
         (case fromPrimitives js now (as_primitives dto) of
            Inl e \<Rightarrow> False
          | Inr p' \<Rightarrow> toPrimitives js p' = Inr dto))"

text \<open>
  The public mutators as data, and a sequence of calls on one object. A call that throws
  leaves the object as the mutator left it, and the caller goes on with the next call.
\<close>

datatype mutator =
    UpdateStock jsnum
  | UpdatePrice jsnum
  | UpdateDetails jsstring jsstring ProductCategory

fun call :: "int \<times> mutator \<Rightarrow> Product \<Rightarrow> error option \<times> Product" where
  "call (now, UpdateStock q) p = updateStock now q p"
| "call (now, UpdatePrice pr) p = updatePrice now pr p"
| "call (now, UpdateDetails n d c) p = updateDetails now n d c p"

fun calls :: "(int \<times> mutator) list \<Rightarrow> Product \<Rightarrow> Product" where
  "calls [] p = p"
| "calls (m # ms) p = calls ms (snd (call m p))"

text \<open>
  Sequencing of calls that may throw: \<open>Array.prototype.map\<close> with a callback that may
  throw applies it from left to right and stops at the first exception.
\<close>

fun mapM :: "('a \<Rightarrow> error + 'b) \<Rightarrow> 'a list \<Rightarrow> error + 'b list" where
  "mapM f [] = Inr []"
| "mapM f (x # xs) =
     (case f x of
        Inl e \<Rightarrow> Inl e
      | Inr y \<Rightarrow> (case mapM f xs of Inl e \<Rightarrow> Inl e | Inr ys \<Rightarrow> Inr (y # ys)))"


text \<open>Truthiness of an optional string field: \<open>undefined\<close> and the empty string are falsy.\<close>

definition truthy_str :: "jsstring option \<Rightarrow> bool" where
  "truthy_str s = (case s of None \<Rightarrow> False | Some v \<Rightarrow> v \<noteq> [])"

definition str_or :: "jsstring option \<Rightarrow> jsstring \<Rightarrow> jsstring" where
  "str_or s dflt = (case s of None \<Rightarrow> dflt | Some v \<Rightarrow> if v \<noteq> [] then v else dflt)"

section \<open>The repository interface and its implementation over fetch\<close>

text \<open>
  The interface \<open>ProductRepository\<close>: what each asynchronous method answers. A rejected
  promise is \<open>Inl\<close>, \<open>null\<close> is \<open>None\<close>.
\<close>

record ProductRepository =
  findById :: "jsstring \<Rightarrow> error + Product option"
  findAll :: "error + Product list"
  findByCategory :: "ProductCategory \<Rightarrow> error + Product list"
  save :: "Product \<Rightarrow> error + unit"
  delete :: "jsstring \<Rightarrow> error + unit"

text \<open>
  The transport. \<open>fetch\<close> is a parameter: for a request it either rejects or resolves to
  a response with a status, a status text and a body that \<open>response.json()\<close> either
  fails to parse or parses to a value. The parsed value is an object of the shape that
  \<open>fromPrimitives\<close> declares for its argument, or an array of such objects.
  \<open>response.ok\<close> is the Fetch API's flag for a status from 200 to 299.
\<close>

record request =
  req_method :: jsstring
  req_url :: jsstring
  req_body :: "ProductDto option"

datatype payload = Object primitives | Array "primitives list"

record response =
  status :: nat
  statusText :: jsstring
  json :: "error + payload"

definition ok :: "response \<Rightarrow> bool" where
  "ok r = (200 \<le> status r \<and> status r \<le> 299)"

type_synonym fetch = "request \<Rightarrow> error + response"

text \<open>
  \<open>Product.fromPrimitives(data)\<close> on a parsed body. An array has none of the fields, so
  \<open>new ProductCategory(undefined)\<close> throws while the arguments are evaluated.
  \<open>data.map(...)\<close> on an object that is not an array is a \<open>TypeError\<close>.
\<close>

definition fromPrimitives_any :: "platform \<Rightarrow> int \<Rightarrow> payload \<Rightarrow> error + Product" where
  "fromPrimitives_any js now data =
     (case data of
        Object d \<Rightarrow> fromPrimitives js now d
      | Array _ \<Rightarrow> Inl (Error (str ''Category cannot be empty'')))"

definition map_fromPrimitives :: "platform \<Rightarrow> int \<Rightarrow> payload \<Rightarrow> error + Product list" where
  "map_fromPrimitives js now data =
     (case data of
        Array items \<Rightarrow> mapM (fromPrimitives js now) items
      | Object _ \<Rightarrow> Inl (TypeError (str ''data.map is not a function'')))"

text \<open>
  Each method of \<open>ApiProductRepository\<close> is a \<open>try\<close> block and its \<open>catch\<close>. The
  function with the suffix \<open>_try\<close> is the block; the method is the block followed by what
  the \<open>catch\<close> clause does with an exception (after logging it to the console, which the
  caller does not see). The class is modelled with the one field \<open>apiUrl\<close>; its copy in
  the directory \<open>nextjs-ddd-project\<close> has the same methods and puts a base URL in front
  of \<open>apiUrl\<close> when it builds the URL of a request. \<open>Product.fromPrimitives\<close> reads the
  clock for a timestamp that the body lacks; \<open>now\<close> is that reading.
\<close>

definition ApiProductRepository_findById_try ::
  "platform \<Rightarrow> fetch \<Rightarrow> int \<Rightarrow> jsstring \<Rightarrow> jsstring \<Rightarrow> error + Product option" where
  "ApiProductRepository_findById_try js fetch now apiUrl i =
     (case fetch \<lparr> req_method = str ''GET'', req_url = apiUrl @ str ''/'' @ i, req_body = None \<rparr> of
        Inl e \<Rightarrow> Inl e
      | Inr response \<Rightarrow>
          if \<not> ok response then
            (if status response = 404 then Inr None
             else Inl (Error (str ''Failed to fetch product: '' @ statusText response)))
          else
            (case json response of
               Inl e \<Rightarrow> Inl e
             | Inr data \<Rightarrow>
                 (case fromPrimitives_any js now data of
                    Inl e \<Rightarrow> Inl e
                  | Inr p \<Rightarrow> Inr (Some p))))"

definition ApiProductRepository_findById ::
  "platform \<Rightarrow> fetch \<Rightarrow> int \<Rightarrow> jsstring \<Rightarrow> jsstring \<Rightarrow> error + Product option" where
  "ApiProductRepository_findById js fetch now apiUrl i =
     (case ApiProductRepository_findById_try js fetch now apiUrl i of
        Inl error \<Rightarrow> Inr None
      | Inr r \<Rightarrow> Inr r)"

definition ApiProductRepository_findAll_try ::
  "platform \<Rightarrow> fetch \<Rightarrow> int \<Rightarrow> jsstring \<Rightarrow> error + Product list" where
  "ApiProductRepository_findAll_try js fetch now apiUrl =
     (case fetch \<lparr> req_method = str ''GET'', req_url = apiUrl, req_body = None \<rparr> of
        Inl e \<Rightarrow> Inl e
      | Inr response \<Rightarrow>
          if \<not> ok response
          then Inl (Error (str ''Failed to fetch products: '' @ statusText response))
          else
            (case json response of
               Inl e \<Rightarrow> Inl e
             | Inr data \<Rightarrow> map_fromPrimitives js now data))"

definition ApiProductRepository_findAll ::
  "platform \<Rightarrow> fetch \<Rightarrow> int \<Rightarrow> jsstring \<Rightarrow> error + Product list" where
  "ApiProductRepository_findAll js fetch now apiUrl =
     (case ApiProductRepository_findAll_try js fetch now apiUrl of
        Inl error \<Rightarrow> Inr []
      | Inr r \<Rightarrow> Inr r)"

definition ApiProductRepository_findByCategory_try ::
  "platform \<Rightarrow> fetch \<Rightarrow> int \<Rightarrow> jsstring \<Rightarrow> ProductCategory \<Rightarrow> error + Product list" where
  "ApiProductRepository_findByCategory_try js fetch now apiUrl c =
     (case fetch \<lparr> req_method = str ''GET'',
                   req_url = apiUrl @ str ''?category='' @ category_value c,
                   req_body = None \<rparr> of
        Inl e \<Rightarrow> Inl e
      | Inr response \<Rightarrow>
          if \<not> ok response
          then Inl (Error (str ''Failed to fetch products by category: '' @ statusText response))
          else
            (case json response of
               Inl e \<Rightarrow> Inl e
             | Inr data \<Rightarrow> map_fromPrimitives js now data))"

definition ApiProductRepository_findByCategory ::
  "platform \<Rightarrow> fetch \<Rightarrow> int \<Rightarrow> jsstring \<Rightarrow> ProductCategory \<Rightarrow> error + Product list" where
  "ApiProductRepository_findByCategory js fetch now apiUrl c =
     (case ApiProductRepository_findByCategory_try js fetch now apiUrl c of
        Inl error \<Rightarrow> Inr []
      | Inr r \<Rightarrow> Inr r)"

text \<open>
  \<open>save\<close> first asks \<open>findById\<close> whether the product exists, then sends \<open>PUT\<close> or
  \<open>POST\<close>. The body is serialised while the arguments of \<open>fetch\<close> are evaluated, so
  an exception of \<open>toPrimitives\<close> comes before the request. \<open>save_request\<close> is the
  request that \<open>save\<close> sends for a product.
\<close>

definition save_method :: "platform \<Rightarrow> fetch \<Rightarrow> int \<Rightarrow> jsstring \<Rightarrow> Product \<Rightarrow> error + jsstring" where
  "save_method js fetch now apiUrl product =
     (case ApiProductRepository_findById js fetch now apiUrl (pid product) of
        Inl e \<Rightarrow> Inl e
      | Inr None \<Rightarrow> Inr (str ''POST'')
      | Inr (Some _) \<Rightarrow> Inr (str ''PUT''))"

definition save_request :: "jsstring \<Rightarrow> jsstring \<Rightarrow> Product \<Rightarrow> ProductDto \<Rightarrow> request" where
  "save_request m apiUrl product dto =
     \<lparr> req_method = m,
       req_url = (if m = str ''PUT'' then apiUrl @ str ''/'' @ pid product else apiUrl),
       req_body = Some dto \<rparr>"

definition ApiProductRepository_save_try ::
  "platform \<Rightarrow> fetch \<Rightarrow> int \<Rightarrow> jsstring \<Rightarrow> Product \<Rightarrow> error + unit" where
  "ApiProductRepository_save_try js fetch now apiUrl product =
     (case save_method js fetch now apiUrl product of
        Inl e \<Rightarrow> Inl e
      | Inr m \<Rightarrow>
         (case toPrimitives js product of
            Inl e \<Rightarrow> Inl e
          | Inr dto \<Rightarrow>
             (case fetch (save_request m apiUrl product dto) of
                Inl e \<Rightarrow> Inl e
              | Inr response \<Rightarrow>
                  if \<not> ok response
                  then Inl (Error (str ''Failed to save product: '' @ statusText response))
                  else Inr ())))"

definition ApiProductRepository_save ::
  "platform \<Rightarrow> fetch \<Rightarrow> int \<Rightarrow> jsstring \<Rightarrow> Product \<Rightarrow> error + unit" where
  "ApiProductRepository_save js fetch now apiUrl product =
     (case ApiProductRepository_save_try js fetch now apiUrl product of
        Inl error \<Rightarrow> Inl error
      | Inr r \<Rightarrow> Inr r)"

definition ApiProductRepository_delete_try :: "fetch \<Rightarrow> jsstring \<Rightarrow> jsstring \<Rightarrow> error + unit" where
  "ApiProductRepository_delete_try fetch apiUrl i =
     (case fetch \<lparr> req_method = str ''DELETE'', req_url = apiUrl @ str ''/'' @ i, req_body = None \<rparr> of
        Inl e \<Rightarrow> Inl e
      | Inr response \<Rightarrow>
          if \<not> ok response
          then Inl (Error (str ''Failed to delete product: '' @ statusText response))
          else Inr ())"

definition ApiProductRepository_delete :: "fetch \<Rightarrow> jsstring \<Rightarrow> jsstring \<Rightarrow> error + unit" where
  "ApiProductRepository_delete fetch apiUrl i =
     (case ApiProductRepository_delete_try fetch apiUrl i of
        Inl error \<Rightarrow> Inl error
      | Inr r \<Rightarrow> Inr r)"

definition ApiProductRepository :: "platform \<Rightarrow> fetch \<Rightarrow> int \<Rightarrow> jsstring \<Rightarrow> ProductRepository" where
  "ApiProductRepository js fetch now apiUrl =
     \<lparr> findById = ApiProductRepository_findById js fetch now apiUrl,
       findAll = ApiProductRepository_findAll js fetch now apiUrl,
       findByCategory = ApiProductRepository_findByCategory js fetch now apiUrl,
       save = ApiProductRepository_save js fetch now apiUrl,
       delete = ApiProductRepository_delete fetch apiUrl \<rparr>"

text \<open>The transport has failed: \<open>fetch\<close> rejected, or the response is not \<open>ok\<close>.\<close>

definition transport_fails :: "error + response \<Rightarrow> bool" where
  "transport_fails r = (case r of Inl e \<Rightarrow> True | Inr response \<Rightarrow> \<not> ok response)"

text \<open>
  The error that a failed request raises inside a method: the one \<open>fetch\<close> rejected
  with, or the method's own error over the status text of a response that is not \<open>ok\<close>.
\<close>

definition failure :: "jsstring \<Rightarrow> error + response \<Rightarrow> error" where
  "failure what r =
     (case r of Inl e \<Rightarrow> e | Inr response \<Rightarrow> Error (what @ statusText response))"

section \<open>The application service\<close>

record CreateProductDto =
  c_id :: "jsstring option"
  c_name :: jsstring
  c_description :: jsstring
  c_price :: jsnum
  c_category :: jsstring
  c_stockQuantity :: "jsnum option"

record UpdateProductDto =
  u_name :: "jsstring option"
  u_description :: "jsstring option"
  u_price :: "jsnum option"
  u_category :: "jsstring option"
  u_stockQuantity :: "jsnum option"

subsection \<open>The service with the in-memory fallback list\<close>

text \<open>
  The state of this \<open>ProductService\<close> is its array \<open>mockProducts\<close>; the repository is
  the constructor's argument. The constructor fills the array with five products. Numeric
  literals are written as the decimal fractions of the source text.
\<close>

definition mockProduct ::
  "platform \<Rightarrow> int \<Rightarrow> jsstring \<times> jsstring \<times> jsstring \<times> jsnum \<times> jsstring \<times> jsnum
     \<Rightarrow> error + Product" where
  "mockProduct js now = (\<lambda>(i, n, d, pr, c, q).
     case ProductCategory_new js c of
       Inl e \<Rightarrow> Inl e
     | Inr cat \<Rightarrow> create now i n d pr cat (Some q))"

definition initializeMockData :: "platform \<Rightarrow> int \<Rightarrow> error + Product list" where
  "initializeMockData js now =
     mapM (mockProduct js now)
       [(str ''1'', str ''Smartphone'', str ''A high-end smartphone with the latest features'',
           Finite (99999 / 100), str ''electronics'', Finite 50),
        (str ''2'', str ''Laptop'', str ''Powerful laptop for work and gaming'',
           Finite (149999 / 100), str ''electronics'', Finite 30),
        (str ''3'', str ''Headphones'', str ''Noise-cancelling wireless headphones'',
           Finite (29999 / 100), str ''electronics'', Finite 100),
        (str ''4'', str ''T-shirt'', str ''Comfortable cotton t-shirt'',
           Finite (1999 / 100), str ''clothing'', Finite 200),
        (str ''5'', str ''Jeans'', str ''Classic blue jeans'',
           Finite (4999 / 100), str ''clothing'', Finite 150)]"

text \<open>
  Objects are references. \<open>getProductById\<close> returns either a new object that the
  repository built, or the very object that the array holds at some index; a mutation of
  the latter is a mutation of the array's element. The result says which of the two it is.
\<close>

datatype origin = FromRepository | FromMock nat

fun findIndex :: "('a \<Rightarrow> bool) \<Rightarrow> 'a list \<Rightarrow> nat option" where
  "findIndex P [] = None"
| "findIndex P (x # xs) = (if P x then Some 0 else map_option Suc (findIndex P xs))"

definition find_mock :: "jsstring \<Rightarrow> Product list \<Rightarrow> (origin \<times> Product) option" where
  "find_mock i mockProducts =
     (case findIndex (\<lambda>p. pid p = i) mockProducts of
        None \<Rightarrow> None
      | Some k \<Rightarrow> Some (FromMock k, mockProducts ! k))"

definition getProductById ::
  "ProductRepository \<Rightarrow> jsstring \<Rightarrow> Product list \<Rightarrow> (origin \<times> Product) option" where
  "getProductById repo i mockProducts =
     (case findById repo i of
        Inr (Some product) \<Rightarrow> Some (FromRepository, product)
      | Inr None \<Rightarrow> find_mock i mockProducts
      | Inl error \<Rightarrow> find_mock i mockProducts)"

definition getProductsByCategory ::
  "platform \<Rightarrow> ProductRepository \<Rightarrow> jsstring \<Rightarrow> Product list \<Rightarrow> error + Product list" where
  "getProductsByCategory js repo categoryName mockProducts =
     (case ProductCategory_new js categoryName of
        Inl error \<Rightarrow> Inr []
      | Inr c \<Rightarrow>
          let fallback = filter (\<lambda>p. category_value (category p) = category_value c) mockProducts
          in (case findByCategory repo c of
                Inr products \<Rightarrow> if length products > 0 then Inr products else Inr fallback
              | Inl repoError \<Rightarrow> Inr fallback))"

definition createProduct ::
  "platform \<Rightarrow> ProductRepository \<Rightarrow> int \<Rightarrow> jsstring \<Rightarrow> CreateProductDto \<Rightarrow> Product list
     \<Rightarrow> (error + Product) \<times> Product list" where
  "createProduct js repo now randomUUID productDto mockProducts =
     (case ProductCategory_new js (c_category productDto) of
        Inl error \<Rightarrow> (Inl error, mockProducts)
      | Inr c \<Rightarrow>
         (case create now (str_or (c_id productDto) randomUUID) (c_name productDto)
                 (c_description productDto) (c_price productDto) c
                 (c_stockQuantity productDto) of
            Inl error \<Rightarrow> (Inl error, mockProducts)
          | Inr product \<Rightarrow>
             (case save repo product of
                Inr _ \<Rightarrow> (Inr product, mockProducts)
              | Inl repoError \<Rightarrow> (Inr product, mockProducts @ [product]))))"

text \<open>
  The three conditional steps of \<open>updateProduct\<close> on the object it found. Each step
  returns how it completed and the object as it left it; a step that throws ends the
  sequence.
\<close>

definition update_details_step ::
  "platform \<Rightarrow> int \<Rightarrow> UpdateProductDto \<Rightarrow> Product \<Rightarrow> error option \<times> Product" where
  "update_details_step js now productDto existingProduct =
     (if truthy_str (u_name productDto) \<or> truthy_str (u_description productDto)
           \<or> truthy_str (u_category productDto)
      then
        (case (case u_category productDto of
                 None \<Rightarrow> Inr (category existingProduct)
               | Some c \<Rightarrow> if c \<noteq> [] then ProductCategory_new js c
                           else Inr (category existingProduct)) of
           Inl e \<Rightarrow> (Some e, existingProduct)
         | Inr c \<Rightarrow>
             updateDetails now
               (str_or (u_name productDto) (name existingProduct))
               (str_or (u_description productDto) (description existingProduct))
               c existingProduct)
      else (None, existingProduct))"

definition update_price_step ::
  "int \<Rightarrow> UpdateProductDto \<Rightarrow> Product \<Rightarrow> error option \<times> Product" where
  "update_price_step now productDto existingProduct =
     (case u_price productDto of
        None \<Rightarrow> (None, existingProduct)
      | Some pr \<Rightarrow> updatePrice now pr existingProduct)"

definition update_stock_step ::
  "int \<Rightarrow> UpdateProductDto \<Rightarrow> Product \<Rightarrow> error option \<times> Product" where
  "update_stock_step now productDto existingProduct =
     (case u_stockQuantity productDto of
        None \<Rightarrow> (None, existingProduct)
      | Some q \<Rightarrow> updateStock now q existingProduct)"

definition apply_update ::
  "platform \<Rightarrow> int \<Rightarrow> UpdateProductDto \<Rightarrow> Product \<Rightarrow> error option \<times> Product" where
  "apply_update js now productDto existingProduct =
     (case update_details_step js now productDto existingProduct of
        (Some e, p1) \<Rightarrow> (Some e, p1)
      | (None, p1) \<Rightarrow>
         (case update_price_step now productDto p1 of
            (Some e, p2) \<Rightarrow> (Some e, p2)
          | (None, p2) \<Rightarrow> update_stock_step now productDto p2))"

definition write_through :: "origin \<Rightarrow> Product \<Rightarrow> Product list \<Rightarrow> Product list" where
  "write_through src p mockProducts =
     (case src of FromRepository \<Rightarrow> mockProducts | FromMock k \<Rightarrow> mockProducts[k := p])"

definition updateProduct ::
  "platform \<Rightarrow> ProductRepository \<Rightarrow> int \<Rightarrow> jsstring \<Rightarrow> UpdateProductDto \<Rightarrow> Product list
     \<Rightarrow> (error + Product option) \<times> Product list" where
  "updateProduct js repo now i productDto mockProducts =
     (case getProductById repo i mockProducts of
        None \<Rightarrow> (Inr None, mockProducts)
      | Some (src, existingProduct) \<Rightarrow>
         (case apply_update js now productDto existingProduct of
            (Some error, p) \<Rightarrow> (Inl error, write_through src p mockProducts)
          | (None, p) \<Rightarrow>
              let mock = write_through src p mockProducts in
              (case save repo p of
                 Inr _ \<Rightarrow> (Inr (Some p), mock)
               | Inl repoError \<Rightarrow>
                   (case findIndex (\<lambda>q. pid q = i) mock of
                      None \<Rightarrow> (Inr (Some p), mock)
                    | Some index \<Rightarrow> (Inr (Some p), mock[index := p])))))"

text \<open>
  The specification's wording for an update, "set if provided": a field of the product
  takes the value of the DTO's field where the DTO has one and keeps its own value where
  it has none. A provided category is stored in lower case, \<open>inStock\<close> follows a
  provided stock quantity, and the time of the update is stamped when a field was
  provided.
\<close>

definition provided :: "UpdateProductDto \<Rightarrow> bool" where
  "provided dto =
     (u_name dto \<noteq> None \<or> u_description dto \<noteq> None \<or> u_category dto \<noteq> None
      \<or> u_price dto \<noteq> None \<or> u_stockQuantity dto \<noteq> None)"

definition set_if_provided ::
  "platform \<Rightarrow> int \<Rightarrow> UpdateProductDto \<Rightarrow> Product \<Rightarrow> Product" where
  "set_if_provided js now dto p =
     \<lparr> pid = pid p,
       name = (case u_name dto of None \<Rightarrow> name p | Some n \<Rightarrow> n),
       description = (case u_description dto of None \<Rightarrow> description p | Some d \<Rightarrow> d),
       price = (case u_price dto of None \<Rightarrow> price p | Some pr \<Rightarrow> pr),
       category = (case u_category dto of
                     None \<Rightarrow> category p
                   | Some c \<Rightarrow> ProductCategory (String_toLowerCase js c)),
       inStock = (case u_stockQuantity dto of
                    None \<Rightarrow> inStock p
                  | Some q \<Rightarrow> js_gt q (Finite 0)),
       stockQuantity = (case u_stockQuantity dto of None \<Rightarrow> stockQuantity p | Some q \<Rightarrow> q),
       createdAt = createdAt p,
       updatedAt = (if provided dto then Date now else updatedAt p) \<rparr>"

text \<open>
  The values of a DTO's provided fields pass the validation of the entity and of the
  value object: the name and the category are not blank, the lower case of the category
  is one of the ten, and the price and the stock quantity are not negative.
\<close>

definition acceptable :: "platform \<Rightarrow> UpdateProductDto \<Rightarrow> bool" where
  "acceptable js dto =
     ((case u_name dto of None \<Rightarrow> True | Some n \<Rightarrow> trim n \<noteq> [])
      \<and> (case u_category dto of
            None \<Rightarrow> True
          | Some c \<Rightarrow> trim c \<noteq> [] \<and> String_toLowerCase js c \<in> set VALID_CATEGORIES)
      \<and> (case u_price dto of None \<Rightarrow> True | Some pr \<Rightarrow> \<not> js_lt pr (Finite 0))
      \<and> (case u_stockQuantity dto of None \<Rightarrow> True | Some q \<Rightarrow> \<not> js_lt q (Finite 0)))"

subsection \<open>The service without the fallback list\<close>


section \<open>The route handler POST /api/products\<close>

text \<open>
  What a handler returns: \<open>NextResponse.json(body, {status})\<close>, a JSON body and a status.
\<close>

record UserDto =
  ud_id :: jsstring
  ud_email :: jsstring
  ud_name :: jsstring
  ud_role :: jsstring
  ud_createdAt :: jsstring
  ud_updatedAt :: jsstring

record AuthResponseDto =
  auth_user :: UserDto
  auth_token :: jsstring

datatype reply =
    ErrorJson jsstring
  | FailureJson jsstring jsstring
  | ProductJson ProductDto
  | UserJson UserDto
  | AuthJson AuthResponseDto

type_synonym NextResponse = "reply \<times> nat"






section \<open>The value object Rating\<close>

text \<open>
  The class as the backend developer's guide gives it. The message of the range check is
  a template over the two constants.
\<close>

datatype Rating = Rating (rating_value: jsnum)

definition MIN_RATING :: jsnum where
  "MIN_RATING = Finite 1"

definition MAX_RATING :: jsnum where
  "MAX_RATING = Finite 5"

definition validateRating :: "jsnum \<Rightarrow> error option" where
  "validateRating rating =
     (if \<not> isInteger rating then Some (Error (str ''Rating must be an integer''))
      else if js_lt rating MIN_RATING \<or> js_gt rating MAX_RATING
        then Some (Error (str ''Rating must be between 1 and 5''))
      else None)"

definition Rating_new :: "jsnum \<Rightarrow> error + Rating" where
  "Rating_new v =
     (case validateRating v of
        Some e \<Rightarrow> Inl e
      | None \<Rightarrow> Inr (Rating v))"

section \<open>The entity User and the two authentication routes\<close>

record User =
  user_id :: jsstring
  user_email :: jsstring
  user_name :: jsstring
  user_role :: jsstring
  user_createdAt :: date
  user_updatedAt :: date

text \<open>
  The test of the regular expression \<^verbatim>\<open>^[^\s@]+@[^\s@]+\.[^\s@]+$\<close>: the string is a
  non-empty local part, one at-sign, and a domain; neither part has white space or an
  at-sign, and the domain has a dot that is neither its first nor its last character.
\<close>

definition validateEmail :: "jsstring \<Rightarrow> bool" where
  "validateEmail email =
     (let local = takeWhile (\<lambda>c. c \<noteq> 64) email;
          rest = dropWhile (\<lambda>c. c \<noteq> 64) email
      in local \<noteq> [] \<and> (\<forall>c \<in> set local. \<not> isWhiteSpace c) \<and> rest \<noteq> [] \<and>
         (let domain = tl rest
          in 64 \<notin> set domain \<and> (\<forall>c \<in> set domain. \<not> isWhiteSpace c) \<and>
             (\<exists>k \<in> {1 ..< length domain - 1}. domain ! k = 46)))"

definition validateUser :: "User \<Rightarrow> error option" where
  "validateUser u =
     (if user_id u = [] then Some (Error (str ''User ID is required''))
      else if user_name u = [] \<or> length (trim (user_name u)) = 0
        then Some (Error (str ''Name cannot be empty''))
      else if \<not> validateEmail (user_email u) then Some (Error (str ''Invalid email format''))
      else None)"

definition User_new ::
  "jsstring \<Rightarrow> jsstring \<Rightarrow> jsstring \<Rightarrow> jsstring \<Rightarrow> date \<Rightarrow> date \<Rightarrow> error + User" where
  "User_new i e n r ca ua =
     (let this = \<lparr> user_id = i, user_email = e, user_name = n, user_role = r,
                   user_createdAt = ca, user_updatedAt = ua \<rparr>
      in case validateUser this of Some err \<Rightarrow> Inl err | None \<Rightarrow> Inr this)"

definition User_create :: "int \<Rightarrow> jsstring \<Rightarrow> jsstring \<Rightarrow> jsstring \<Rightarrow> error + User" where
  "User_create now i e n = User_new i e n (str ''user'') (Date now) (Date now)"

definition User_toPrimitives :: "platform \<Rightarrow> User \<Rightarrow> error + UserDto" where
  "User_toPrimitives js this =
     (case toISOString js (user_createdAt this) of
        Inl e \<Rightarrow> Inl e
      | Inr c \<Rightarrow>
         (case toISOString js (user_updatedAt this) of
            Inl e \<Rightarrow> Inl e
          | Inr u \<Rightarrow>
              Inr \<lparr> ud_id = user_id this, ud_email = user_email this,
                    ud_name = user_name this, ud_role = user_role this,
                    ud_createdAt = c, ud_updatedAt = u \<rparr>))"

text \<open>
  The module of the register route owns an array of users, empty when the module is
  loaded. The request bodies are at the types of \<open>CreateUserDto\<close> and \<open>LoginDto\<close>.
\<close>

record RegisterBody =
  r_name :: jsstring
  r_email :: jsstring
  r_password :: jsstring

definition register ::
  "platform \<Rightarrow> int \<Rightarrow> jsstring \<Rightarrow> error + RegisterBody \<Rightarrow> User list
     \<Rightarrow> NextResponse \<times> User list" where
  "register js now randomUUID request_json mockUsers =
     (case request_json of
        Inl error \<Rightarrow> ((ErrorJson (str ''Internal server error''), 500), mockUsers)
      | Inr body \<Rightarrow>
          if \<exists>u \<in> set mockUsers. user_email u = r_email body
          then ((ErrorJson (str ''Email already registered''), 400), mockUsers)
          else
            (case User_create now randomUUID (r_email body) (r_name body) of
               Inl error \<Rightarrow> ((ErrorJson (str ''Internal server error''), 500), mockUsers)
             | Inr user \<Rightarrow>
                 (case User_toPrimitives js user of
                    Inl error \<Rightarrow>
                      ((ErrorJson (str ''Internal server error''), 500), mockUsers @ [user])
                  | Inr dto \<Rightarrow> ((UserJson dto, 201), mockUsers @ [user]))))"

text \<open>
  The module of the login route owns another array, a constant with one user. Its two
  timestamps are taken when the module is loaded.
\<close>

record StoredUser =
  su_id :: jsstring
  su_email :: jsstring
  su_password :: jsstring
  su_name :: jsstring
  su_role :: jsstring
  su_createdAt :: jsstring
  su_updatedAt :: jsstring

record LoginDto =
  l_email :: jsstring
  l_password :: jsstring

definition login_mockUsers :: "platform \<Rightarrow> int \<Rightarrow> StoredUser list" where
  "login_mockUsers js loaded =
     [\<lparr> su_id = str ''1'', su_email = str ''john@example.com'', su_password = str ''password123'',
        su_name = str ''John Doe'', su_role = str ''user'',
        su_createdAt = Date_toISOString js loaded,
        su_updatedAt = Date_toISOString js loaded \<rparr>]"

definition login :: "StoredUser list \<Rightarrow> error + LoginDto \<Rightarrow> NextResponse" where
  "login mockUsers request_json =
     (case request_json of
        Inl error \<Rightarrow> (ErrorJson (str ''Internal server error''), 500)
      | Inr body \<Rightarrow>
         (case find (\<lambda>u. su_email u = l_email body) mockUsers of
            None \<Rightarrow> (ErrorJson (str ''Invalid credentials''), 401)
          | Some user \<Rightarrow>
              if su_password user \<noteq> l_password body
              then (ErrorJson (str ''Invalid credentials''), 401)
              else
                (AuthJson \<lparr> auth_user =
                              \<lparr> ud_id = su_id user, ud_email = su_email user,
                                ud_name = su_name user, ud_role = su_role user,
                                ud_createdAt = su_createdAt user,
                                ud_updatedAt = su_updatedAt user \<rparr>,
                            auth_token = str ''mock-jwt-token'' \<rparr>, 200)))"

text \<open>
  The server holds both modules. A request to one route reads and writes the array of
  that route's module only.
\<close>

record auth_modules =
  login_module :: "StoredUser list"
  register_module :: "User list"

datatype auth_request =
    PostRegister int jsstring "error + RegisterBody"
  | PostLogin "error + LoginDto"

definition modules_loaded :: "platform \<Rightarrow> int \<Rightarrow> auth_modules" where
  "modules_loaded js loaded =
     \<lparr> login_module = login_mockUsers js loaded, register_module = [] \<rparr>"

fun handle :: "platform \<Rightarrow> auth_request \<Rightarrow> auth_modules \<Rightarrow> NextResponse \<times> auth_modules" where
  "handle js (PostRegister now randomUUID request_json) s =
     (case register js now randomUUID request_json (register_module s) of
        (r, users) \<Rightarrow> (r, s\<lparr> register_module := users \<rparr>))"
| "handle js (PostLogin request_json) s = (login (login_module s) request_json, s)"

fun serve :: "platform \<Rightarrow> auth_request list \<Rightarrow> auth_modules \<Rightarrow> auth_modules" where
  "serve js [] s = s"
| "serve js (r # rs) s = serve js rs (snd (handle js r s))"

section \<open>Concrete inputs\<close>

text \<open>
  The built-ins as far as the examples below use them. The dates are at the epoch: the
  ISO string of the time value \<open>0\<close> is \<^verbatim>\<open>1970-01-01T00:00:00.000Z\<close>, and that string
  parses to \<open>0\<close>. The strings that are lower-cased are ASCII text: capital letters, and
  the KELVIN SIGN, become small letters and every other code unit stays.
\<close>

definition at_epoch :: platform where
  "at_epoch =
     \<lparr> Date_toISOString = (\<lambda>t. str ''1970-01-01T00:00:00.000Z''),
       Date_parse = (\<lambda>s. if s = str ''1970-01-01T00:00:00.000Z'' then Date 0
                         else InvalidDate),
       String_toLowerCase = map lowerUnit \<rparr>"

text \<open>A transport without a network: every request is rejected.\<close>

definition network_down :: fetch where
  "network_down r = Inl (TypeError (str ''fetch failed''))"

text \<open>A transport whose server answers every request with status 500.\<close>

definition server_error :: fetch where
  "server_error r =
     Inr \<lparr> status = 500, statusText = str ''Internal Server Error'',
           json = Inl (Error (str ''Unexpected end of JSON input'')) \<rparr>"


definition MOCK_API_URL :: jsstring where
  "MOCK_API_URL = str ''https://api.example.com/products''"

text \<open>The first product of the fallback list, as the constructor of the service builds it.\<close>

definition smartphone :: Product where
  "smartphone =
     \<lparr> pid = str ''1'', name = str ''Smartphone'',
       description = str ''A high-end smartphone with the latest features'',
       price = Finite (99999 / 100), category = ProductCategory (str ''electronics''),
       inStock = True, stockQuantity = Finite 50,
       createdAt = Date 0, updatedAt = Date 0 \<rparr>"

section \<open>Properties of strings and of ProductCategory\<close>

lemma str_Nil [simp]: "str [] = []"
  by (simp add: str_def)

lemma str_Cons [simp]: "str (c # cs) = of_char c # str cs"
  by (simp add: str_def)

lemma hasSmallLetter_iff: "hasSmallLetter u \<longleftrightarrow> isSmallLetter (lowerUnit u)"
  by (auto simp: hasSmallLetter_def isSmallLetter_def lowerUnit_def isCapitalLetter_def
      KELVIN_SIGN_def)

lemma sameLetter_small: "isSmallLetter y \<Longrightarrow> sameLetter x y \<longleftrightarrow> lowerUnit x = y"
  by (auto simp: sameLetter_def lowerUnit_def isSmallLetter_def isCapitalLetter_def
      KELVIN_SIGN_def)

lemma equalsIgnoreCase_small:
  "list_all isSmallLetter c \<Longrightarrow> equalsIgnoreCase s c \<longleftrightarrow> map lowerUnit s = c"
  unfolding equalsIgnoreCase_def
proof (induction s arbitrary: c)
  case Nil
  then show ?case by auto
next
  case (Cons x xs)
  then show ?case by (cases c) (auto simp: sameLetter_small)
qed

lemma VALID_small: "c \<in> set VALID_CATEGORIES \<Longrightarrow> list_all isSmallLetter c"
  by (auto simp: VALID_CATEGORIES_def isSmallLetter_def)

lemma VALID_not_blank: "c \<in> set VALID_CATEGORIES \<Longrightarrow> c \<noteq> [] \<and> trim c \<noteq> []"
  by (auto simp: VALID_CATEGORIES_def trim_def isWhiteSpace_def)

lemma small_not_space: "isSmallLetter u \<Longrightarrow> \<not> isWhiteSpace u"
  by (auto simp: isSmallLetter_def isWhiteSpace_def)

lemma hasSmallLetter_not_space: "hasSmallLetter u \<Longrightarrow> \<not> isWhiteSpace u"
  by (auto simp: hasSmallLetter_def isSmallLetter_def isCapitalLetter_def KELVIN_SIGN_def
      isWhiteSpace_def)

lemma map_lowerUnit_small:
  "list_all isSmallLetter (map lowerUnit s) \<longleftrightarrow> list_all hasSmallLetter s"
  by (induction s) (simp_all add: hasSmallLetter_iff)

lemma lower_case_valid:
  assumes "unicode_lower_case js"
  shows "String_toLowerCase js s \<in> set VALID_CATEGORIES \<longleftrightarrow> map lowerUnit s \<in> set VALID_CATEGORIES"
    and "map lowerUnit s \<in> set VALID_CATEGORIES \<Longrightarrow> String_toLowerCase js s = map lowerUnit s"
proof -
  from assms have a: "list_all hasSmallLetter s \<Longrightarrow> String_toLowerCase js s = map lowerUnit s"
    and b: "list_all isSmallLetter (String_toLowerCase js s) \<Longrightarrow> list_all hasSmallLetter s"
    unfolding unicode_lower_case_def by blast+
  show c: "map lowerUnit s \<in> set VALID_CATEGORIES \<Longrightarrow> String_toLowerCase js s = map lowerUnit s"
    using a VALID_small[of "map lowerUnit s"] by (simp add: map_lowerUnit_small)
  show "String_toLowerCase js s \<in> set VALID_CATEGORIES \<longleftrightarrow> map lowerUnit s \<in> set VALID_CATEGORIES"
  proof
    assume v: "String_toLowerCase js s \<in> set VALID_CATEGORIES"
    from b[OF VALID_small[OF v]] have "String_toLowerCase js s = map lowerUnit s" by (rule a)
    with v show "map lowerUnit s \<in> set VALID_CATEGORIES" by simp
  next
    assume "map lowerUnit s \<in> set VALID_CATEGORIES"
    with c show "String_toLowerCase js s \<in> set VALID_CATEGORIES" by simp
  qed
qed

lemma dropWhile_all: "(\<forall>x \<in> set (dropWhile P s). P x) \<longleftrightarrow> (\<forall>x \<in> set s. P x)"
  by (induction s) auto

lemma trim_empty: "trim s = [] \<longleftrightarrow> (\<forall>c \<in> set s. isWhiteSpace c)"
  by (simp add: trim_def dropWhile_eq_Nil_conv dropWhile_all)

lemma trim_nonempty: "trim n \<noteq> [] \<Longrightarrow> n \<noteq> []"
  by (auto simp: trim_def)

lemma blank_test: "(s = [] \<or> length (trim s) = 0) \<longleftrightarrow> trim s = []"
  by (auto simp: trim_def)

lemma blank_not_valid:
  assumes "unicode_lower_case js" and "trim s = []"
  shows "String_toLowerCase js s \<notin> set VALID_CATEGORIES"
proof
  assume "String_toLowerCase js s \<in> set VALID_CATEGORIES"
  with lower_case_valid(1)[OF assms(1)] have m: "map lowerUnit s \<in> set VALID_CATEGORIES"
    by simp
  from VALID_not_blank[OF m] have ne: "s \<noteq> []" by simp
  from VALID_small[OF m] have "list_all hasSmallLetter s"
    by (simp add: map_lowerUnit_small)
  with ne have "\<not> isWhiteSpace (hd s)"
    by (cases s) (simp_all add: hasSmallLetter_not_space)
  moreover from assms(2) ne have "isWhiteSpace (hd s)"
    by (simp add: trim_empty)
  ultimately show False by simp
qed

lemma ProductCategory_new_valid:
  "trim s \<noteq> [] \<Longrightarrow> String_toLowerCase js s \<in> set VALID_CATEGORIES \<Longrightarrow>
     ProductCategory_new js s = Inr (ProductCategory (String_toLowerCase js s))"
  unfolding ProductCategory_new_def validateCategory_def blank_test
  by (simp add: Let_def)

lemma ProductCategory_new_invalid:
  "String_toLowerCase js s \<notin> set VALID_CATEGORIES \<Longrightarrow>
     ProductCategory_new js s =
       Inl (Error (if trim s = [] then str ''Category cannot be empty''
                   else str ''Invalid category: '' @ s @ str ''. Valid categories are: ''
                        @ join (str '', '') VALID_CATEGORIES))"
  unfolding ProductCategory_new_def validateCategory_def blank_test
  by (simp add: Let_def)

lemma ProductCategory_new_blank:
  "trim s = [] \<Longrightarrow> ProductCategory_new js s = Inl (Error (str ''Category cannot be empty''))"
  unfolding ProductCategory_new_def validateCategory_def blank_test
  by simp

lemma ProductCategory_new_value:
  assumes "ProductCategory_new js s = Inr c"
  shows "trim s \<noteq> []" and "String_toLowerCase js s \<in> set VALID_CATEGORIES"
    and "c = ProductCategory (String_toLowerCase js s)"
proof -
  show t: "trim s \<noteq> []"
  proof
    assume "trim s = []"
    from ProductCategory_new_blank[OF this] assms show False by simp
  qed
  show v: "String_toLowerCase js s \<in> set VALID_CATEGORIES"
  proof (rule ccontr)
    assume "String_toLowerCase js s \<notin> set VALID_CATEGORIES"
    from ProductCategory_new_invalid[OF this] assms show False by simp
  qed
  from ProductCategory_new_valid[OF t v] assms
  show "c = ProductCategory (String_toLowerCase js s)" by simp
qed

lemma at_epoch_lower_case: "unicode_lower_case at_epoch"
  by (simp add: unicode_lower_case_def at_epoch_def map_lowerUnit_small)

text \<open>
  Claim C8. On a platform whose lower-casing is that of Unicode, the constructor of
  ProductCategory succeeds exactly on the strings that match one of the ten categories up
  to the case of letters; the stored value is the lower case of the input, which is that
  category; on every other string it throws an error whose message names the rule: that
  the category cannot be empty for a blank string, and that it is invalid, with the list
  of the valid ones, for the rest.
\<close>

theorem ProductCategory_accepts_exactly_the_ten:
  assumes "unicode_lower_case js"
  shows "ProductCategory_new js s =
     (if \<exists>c \<in> set VALID_CATEGORIES. equalsIgnoreCase s c
      then Inr (ProductCategory (String_toLowerCase js s))
      else Inl (Error (if trim s = [] then str ''Category cannot be empty''
                       else str ''Invalid category: '' @ s @ str ''. Valid categories are: ''
                            @ join (str '', '') VALID_CATEGORIES)))
   \<and> (\<forall>c \<in> set VALID_CATEGORIES. equalsIgnoreCase s c \<longrightarrow> String_toLowerCase js s = c)
   \<and> VALID_CATEGORIES =
       [str ''electronics'', str ''clothing'', str ''books'', str ''home'', str ''sports'',
        str ''toys'', str ''food'', str ''health'', str ''beauty'', str ''other'']"
proof (intro conjI)
  have m: "(\<exists>c \<in> set VALID_CATEGORIES. equalsIgnoreCase s c)
           \<longleftrightarrow> String_toLowerCase js s \<in> set VALID_CATEGORIES"
    using equalsIgnoreCase_small VALID_small lower_case_valid(1)[OF assms, of s] by metis
  show "\<forall>c \<in> set VALID_CATEGORIES. equalsIgnoreCase s c \<longrightarrow> String_toLowerCase js s = c"
  proof (intro ballI impI)
    fix c assume c: "c \<in> set VALID_CATEGORIES" and e: "equalsIgnoreCase s c"
    from e have l: "map lowerUnit s = c"
      by (simp add: equalsIgnoreCase_small[OF VALID_small[OF c]])
    with c lower_case_valid(2)[OF assms, of s] show "String_toLowerCase js s = c" by simp
  qed
  show "ProductCategory_new js s =
     (if \<exists>c \<in> set VALID_CATEGORIES. equalsIgnoreCase s c
      then Inr (ProductCategory (String_toLowerCase js s))
      else Inl (Error (if trim s = [] then str ''Category cannot be empty''
                       else str ''Invalid category: '' @ s @ str ''. Valid categories are: ''
                            @ join (str '', '') VALID_CATEGORIES)))"
  proof (cases "String_toLowerCase js s \<in> set VALID_CATEGORIES")
    case True
    with blank_not_valid[OF assms, of s] have "trim s \<noteq> []" by blast
    from ProductCategory_new_valid[OF this True] True m show ?thesis by simp
  next
    case False
    from ProductCategory_new_invalid[OF False] False m show ?thesis by simp
  qed
  show "VALID_CATEGORIES =
       [str ''electronics'', str ''clothing'', str ''books'', str ''home'', str ''sports'',
        str ''toys'', str ''food'', str ''health'', str ''beauty'', str ''other'']"
    by (simp only: VALID_CATEGORIES_def)
qed

lemma gadgets_rejected:
  "ProductCategory_new at_epoch (str ''gadgets'') =
     Inl (Error (str ''Invalid category: gadgets. Valid categories are: electronics, clothing, books, home, sports, toys, food, health, beauty, other''))"
proof -
  have "String_toLowerCase at_epoch (str ''gadgets'') \<notin> set VALID_CATEGORIES"
    by (simp add: VALID_CATEGORIES_def at_epoch_def lowerUnit_def isCapitalLetter_def
        KELVIN_SIGN_def)
  from ProductCategory_new_invalid[OF this] show ?thesis
    by (simp add: trim_def isWhiteSpace_def VALID_CATEGORIES_def)
qed

lemma electronics_accepted:
  "ProductCategory_new at_epoch (str ''electronics'')
     = Inr (ProductCategory (str ''electronics''))"
proof -
  have l: "String_toLowerCase at_epoch (str ''electronics'') = str ''electronics''"
    by (simp add: at_epoch_def lowerUnit_def isCapitalLetter_def KELVIN_SIGN_def)
  have "trim (str ''electronics'') \<noteq> []"
    by (simp add: trim_def isWhiteSpace_def)
  from ProductCategory_new_valid[OF this, of at_epoch] l show ?thesis
    by (simp add: VALID_CATEGORIES_def)
qed

theorem ProductCategory_accepts_exactly_the_ten_witness:
  "unicode_lower_case at_epoch
   \<and> ProductCategory_new at_epoch (str ''Electronics'')
       = Inr (ProductCategory (str ''electronics''))
   \<and> ProductCategory_new at_epoch (str ''boo'' @ [KELVIN_SIGN] @ str ''s'')
       = Inr (ProductCategory (str ''books''))
   \<and> ProductCategory_new at_epoch (str ''gadgets'') =
       Inl (Error (str ''Invalid category: gadgets. Valid categories are: electronics, clothing, books, home, sports, toys, food, health, beauty, other''))
   \<and> ProductCategory_new at_epoch [160, 32] = Inl (Error (str ''Category cannot be empty''))"
proof (intro conjI)
  note t = ProductCategory_accepts_exactly_the_ten[OF at_epoch_lower_case]
  show "unicode_lower_case at_epoch" by (rule at_epoch_lower_case)
  show "ProductCategory_new at_epoch (str ''Electronics'')
       = Inr (ProductCategory (str ''electronics''))"
    using t[of "str ''Electronics''"]
    by (simp add: VALID_CATEGORIES_def equalsIgnoreCase_def sameLetter_def isCapitalLetter_def
        KELVIN_SIGN_def at_epoch_def lowerUnit_def)
  show "ProductCategory_new at_epoch (str ''boo'' @ [KELVIN_SIGN] @ str ''s'')
       = Inr (ProductCategory (str ''books''))"
    using t[of "str ''boo'' @ [KELVIN_SIGN] @ str ''s''"]
    by (simp add: VALID_CATEGORIES_def equalsIgnoreCase_def sameLetter_def isCapitalLetter_def
        KELVIN_SIGN_def at_epoch_def lowerUnit_def)
  show "ProductCategory_new at_epoch (str ''gadgets'') =
       Inl (Error (str ''Invalid category: gadgets. Valid categories are: electronics, clothing, books, home, sports, toys, food, health, beauty, other''))"
    using t[of "str ''gadgets''"]
    by (simp add: VALID_CATEGORIES_def equalsIgnoreCase_def sameLetter_def isCapitalLetter_def
        KELVIN_SIGN_def trim_def isWhiteSpace_def)
  show "ProductCategory_new at_epoch [160, 32] = Inl (Error (str ''Category cannot be empty''))"
    using t[of "[160, 32]"]
    by (simp add: VALID_CATEGORIES_def equalsIgnoreCase_def sameLetter_def isCapitalLetter_def
        KELVIN_SIGN_def trim_def isWhiteSpace_def)
qed

section \<open>Properties of Product\<close>

lemma Product_new_inStock:
  "Product_new i n d pr c q ca ua = Inr p \<Longrightarrow> inStock p = js_gt (stockQuantity p) (Finite 0)"
  by (auto simp: Product_new_def Let_def split: option.splits)

lemma call_inStock:
  "inStock p = js_gt (stockQuantity p) (Finite 0) \<Longrightarrow>
   inStock (snd (call m p)) = js_gt (stockQuantity (snd (call m p))) (Finite 0)"
proof (cases m)
  case (Pair now f)
  assume "inStock p = js_gt (stockQuantity p) (Finite 0)"
  then show ?thesis unfolding Pair
    by (cases f) (simp_all add: updateStock_def updatePrice_def updateDetails_def)
qed

lemma calls_inStock:
  "inStock p = js_gt (stockQuantity p) (Finite 0) \<Longrightarrow>
   inStock (calls ms p) = js_gt (stockQuantity (calls ms p)) (Finite 0)"
proof (induction ms arbitrary: p)
  case Nil
  then show ?case by simp
next
  case (Cons m ms)
  from Cons.prems
  have "inStock (snd (call m p)) = js_gt (stockQuantity (snd (call m p))) (Finite 0)"
    by (rule call_inStock)
  then show ?case by (simp add: Cons.IH)
qed

lemma create_smartphone:
  "create 0 (str ''1'') (str ''Smartphone'') (str ''A high-end smartphone with the latest features'')
     (Finite (99999 / 100)) (ProductCategory (str ''electronics'')) (Some (Finite 50)) = Inr smartphone"
  by (simp add: create_def Product_new_def validateProduct_def trim_def isWhiteSpace_def
      js_lt_def unsigned_zero_def js_gt_def smartphone_def)

text \<open>
  Claim C1. A product that a constructor call, \<open>create\<close> or \<open>fromPrimitives\<close> has
  returned, and on which any sequence of the mutators \<open>updateStock\<close>, \<open>updatePrice\<close> and
  \<open>updateDetails\<close> has then been called (whether the calls threw or not), has \<open>inStock\<close>
  equal to \<open>stockQuantity > 0\<close>. There is no other operation that writes \<open>inStock\<close>.
\<close>

theorem inStock_iff_stockQuantity_positive:
  assumes "Product_new i n d pr c q ca ua = Inr p
           \<or> create now i n d pr c qo = Inr p
           \<or> fromPrimitives js now data = Inr p"
  shows "inStock (calls ms p) = js_gt (stockQuantity (calls ms p)) (Finite 0)"
proof -
  from assms have "inStock p = js_gt (stockQuantity p) (Finite 0)"
    by (auto simp: create_def fromPrimitives_def split: sum.splits dest: Product_new_inStock)
  then show ?thesis by (rule calls_inStock)
qed

theorem inStock_iff_stockQuantity_positive_witness:
  "create 0 (str ''1'') (str ''Smartphone'') (str ''A high-end smartphone with the latest features'')
     (Finite (99999 / 100)) (ProductCategory (str ''electronics'')) (Some (Finite 50)) = Inr smartphone
   \<and> stockQuantity (calls [(1, UpdateStock (Finite 0)), (2, UpdatePrice (Finite 3)),
                           (3, UpdateStock (Finite (- 1)))] smartphone) = Finite 0
   \<and> inStock (calls [(1, UpdateStock (Finite 0)), (2, UpdatePrice (Finite 3)),
                     (3, UpdateStock (Finite (- 1)))] smartphone) = False"
proof -
  have q: "stockQuantity (calls [(1, UpdateStock (Finite 0)), (2, UpdatePrice (Finite 3)),
                           (3, UpdateStock (Finite (- 1)))] smartphone) = Finite 0"
    by (simp add: updateStock_def updatePrice_def js_lt_def unsigned_zero_def js_gt_def)
  with create_smartphone
    inStock_iff_stockQuantity_positive[OF disjI2[OF disjI1[OF create_smartphone]],
      where ms = "[(1, UpdateStock (Finite 0)), (2, UpdatePrice (Finite 3)),
                   (3, UpdateStock (Finite (- 1)))]"]
  show ?thesis by (simp add: js_gt_def js_lt_def unsigned_zero_def)
qed

text \<open>
  Claim C7. \<open>updateStock\<close> with a negative quantity throws the error "Stock quantity
  cannot be negative", and the product after the call is the product before it, in every
  field.
\<close>

theorem updateStock_negative_throws_and_changes_nothing:
  "js_lt q (Finite 0) \<Longrightarrow>
     updateStock now q p = (Some (Error (str ''Stock quantity cannot be negative'')), p)"
  by (simp add: updateStock_def)

theorem updateStock_negative_throws_and_changes_nothing_witness:
  "js_lt (Finite (- 1)) (Finite 0) \<and>
   updateStock 1 (Finite (- 1)) smartphone
     = (Some (Error (str ''Stock quantity cannot be negative'')), smartphone)"
proof -
  have h: "js_lt (Finite (- 1)) (Finite 0)"
    by (simp add: js_lt_def unsigned_zero_def)
  from h updateStock_negative_throws_and_changes_nothing[OF h] show ?thesis by simp
qed

section \<open>Properties of Rating\<close>

lemma small_integers:
  fixes x :: rat
  assumes "of_int \<lfloor>x\<rfloor> = x" and "\<not> x < 1" and "\<not> 5 < x"
  shows "x = 1 \<or> x = 2 \<or> x = 3 \<or> x = 4 \<or> x = 5"
proof -
  define k where "k = \<lfloor>x\<rfloor>"
  from assms(1) have x: "x = of_int k" unfolding k_def by (rule sym)
  with assms have "1 \<le> k" "k \<le> 5" by auto
  then have "k = 1 \<or> k = 2 \<or> k = 3 \<or> k = 4 \<or> k = 5" by arith
  with x show ?thesis by auto
qed

text \<open>
  Claim C9. The constructor of Rating succeeds exactly on the numbers 1, 2, 3, 4 and 5.
  Every other integer, 0 and 6 among them, is rejected with "Rating must be between 1 and
  5", and every number that is not an integer, 3.5 among them, with "Rating must be an
  integer".
\<close>

theorem Rating_accepts_exactly_one_to_five:
  "Rating_new n =
     (if n \<in> {Finite 1, Finite 2, Finite 3, Finite 4, Finite 5} then Inr (Rating n)
      else if isInteger n then Inl (Error (str ''Rating must be between 1 and 5''))
      else Inl (Error (str ''Rating must be an integer'')))"
proof (cases n)
  case (Finite x)
  show ?thesis
  proof (cases "of_int \<lfloor>x\<rfloor> = x")
    case True
    show ?thesis
    proof (cases "x < 1 \<or> 5 < x")
      case True
      with \<open>of_int \<lfloor>x\<rfloor> = x\<close> Finite show ?thesis
        by (auto simp: Rating_new_def validateRating_def isInteger_def js_lt_def unsigned_zero_def js_gt_def
            MIN_RATING_def MAX_RATING_def)
    next
      case False
      with small_integers[OF True] have "x = 1 \<or> x = 2 \<or> x = 3 \<or> x = 4 \<or> x = 5" by simp
      with Finite show ?thesis
        by (auto simp: Rating_new_def validateRating_def isInteger_def js_lt_def unsigned_zero_def js_gt_def
            MIN_RATING_def MAX_RATING_def)
    qed
  next
    case False
    with Finite show ?thesis
      by (auto simp: Rating_new_def validateRating_def isInteger_def)
  qed
qed (simp_all add: Rating_new_def validateRating_def isInteger_def js_lt_def unsigned_zero_def
    js_gt_def MIN_RATING_def MAX_RATING_def)

theorem Rating_accepts_exactly_one_to_five_witness:
  "Rating_new (Finite 3) = Inr (Rating (Finite 3))
   \<and> Rating_new (Finite 0) = Inl (Error (str ''Rating must be between 1 and 5''))
   \<and> Rating_new (Finite 6) = Inl (Error (str ''Rating must be between 1 and 5''))
   \<and> Rating_new (Finite (7 / 2)) = Inl (Error (str ''Rating must be an integer''))
   \<and> Rating_new NaN = Inl (Error (str ''Rating must be an integer''))
   \<and> Rating_new NegZero = Inl (Error (str ''Rating must be between 1 and 5''))"
proof -
  have f: "\<lfloor>7 / 2 :: rat\<rfloor> = 3"
    by (rule floor_unique) simp_all
  show ?thesis
    using Rating_accepts_exactly_one_to_five[of "Finite 3"]
      Rating_accepts_exactly_one_to_five[of "Finite 0"]
      Rating_accepts_exactly_one_to_five[of "Finite 6"]
      Rating_accepts_exactly_one_to_five[of "Finite (7 / 2)"]
      Rating_accepts_exactly_one_to_five[of NaN]
      Rating_accepts_exactly_one_to_five[of NegZero]
    by (simp add: isInteger_def f)
qed

section \<open>Properties of the authentication routes\<close>

lemma handle_login_module: "login_module (snd (handle js r s)) = login_module s"
  by (cases r) (auto split: prod.splits)

lemma serve_login_module: "login_module (serve js rs s) = login_module s"
  by (induction rs arbitrary: s) (simp_all add: handle_login_module)

lemma login_unknown_email:
  "e \<noteq> str ''john@example.com'' \<Longrightarrow>
     login (login_mockUsers js loaded) (Inr \<lparr> l_email = e, l_password = pw \<rparr>)
       = (ErrorJson (str ''Invalid credentials''), 401)"
  by (auto simp: login_def login_mockUsers_def)

text \<open>
  Claim C10. The array that the login route searches is the constant of its own module,
  with the one user john@example.com; the register route appends to the array of another
  module. After any sequence of requests, a login with a registered email other than
  john@example.com is answered with 401 and "Invalid credentials", whatever the password.
\<close>

theorem registration_never_enables_login:
  assumes "s = serve js rs (modules_loaded js loaded)"
    and "e \<in> user_email ` set (register_module s)"
    and "e \<noteq> str ''john@example.com''"
  shows "login_module s = login_mockUsers js loaded
         \<and> handle js (PostLogin (Inr \<lparr> l_email = e, l_password = pw \<rparr>)) s
             = ((ErrorJson (str ''Invalid credentials''), 401), s)"
proof -
  from assms(1) have m: "login_module s = login_mockUsers js loaded"
    by (simp add: serve_login_module modules_loaded_def)
  with login_unknown_email[OF assms(3)] show ?thesis by simp
qed

lemma alice_email: "validateEmail (str ''alice@example.com'')"
  by (simp add: validateEmail_def isWhiteSpace_def Let_def; rule bexI[of _ 7]; simp)

lemma register_alice:
  "serve at_epoch
     [PostRegister 0 (str ''7d4f'') (Inr \<lparr> r_name = str ''Alice'', r_email = str ''alice@example.com'', r_password = str ''secret'' \<rparr>)]
     (modules_loaded at_epoch 0)
   = \<lparr> login_module = login_mockUsers at_epoch 0,
       register_module = [\<lparr> user_id = str ''7d4f'', user_email = str ''alice@example.com'', user_name = str ''Alice'',
                            user_role = str ''user'', user_createdAt = Date 0, user_updatedAt = Date 0 \<rparr>] \<rparr>"
  using alice_email
  by (simp add: modules_loaded_def register_def User_create_def User_new_def validateUser_def
      trim_def isWhiteSpace_def User_toPrimitives_def toISOString_def
      at_epoch_def)

theorem registration_never_enables_login_witness:
  "handle at_epoch
     (PostLogin (Inr \<lparr> l_email = str ''alice@example.com'', l_password = str ''secret'' \<rparr>))
     (serve at_epoch
        [PostRegister 0 (str ''7d4f'')
           (Inr \<lparr> r_name = str ''Alice'', r_email = str ''alice@example.com'', r_password = str ''secret'' \<rparr>)]
        (modules_loaded at_epoch 0))
   = ((ErrorJson (str ''Invalid credentials''), 401),
      \<lparr> login_module = login_mockUsers at_epoch 0,
        register_module =
          [\<lparr> user_id = str ''7d4f'', user_email = str ''alice@example.com'', user_name = str ''Alice'',
             user_role = str ''user'', user_createdAt = Date 0, user_updatedAt = Date 0 \<rparr>] \<rparr>)"
proof -
  have "(str ''alice@example.com'') \<noteq> str ''john@example.com''"
    by simp
  from registration_never_enables_login[OF refl _ this, of at_epoch
      "[PostRegister 0 (str ''7d4f'')
           (Inr \<lparr> r_name = str ''Alice'', r_email = str ''alice@example.com'', r_password = str ''secret'' \<rparr>)]"
      0 "(str ''secret'')", unfolded register_alice]
  show ?thesis
    unfolding register_alice by simp
qed

section \<open>Properties of ApiProductRepository\<close>

lemma findById_never_throws:
  "\<exists>r. ApiProductRepository_findById js fetch now apiUrl i = Inr r"
  by (simp add: ApiProductRepository_findById_def split: sum.splits)

lemma findById_on_failure:
  "transport_fails (fetch \<lparr> req_method = str ''GET'', req_url = apiUrl @ str ''/'' @ i, req_body = None \<rparr>)
   \<Longrightarrow> ApiProductRepository_findById js fetch now apiUrl i = Inr None"
  by (auto simp: ApiProductRepository_findById_def ApiProductRepository_findById_try_def
      transport_fails_def split: sum.splits)

lemma findAll_on_failure:
  "transport_fails (fetch \<lparr> req_method = str ''GET'', req_url = apiUrl, req_body = None \<rparr>)
   \<Longrightarrow> ApiProductRepository_findAll js fetch now apiUrl = Inr []"
  by (auto simp: ApiProductRepository_findAll_def ApiProductRepository_findAll_try_def
      transport_fails_def split: sum.splits)

lemma findByCategory_on_failure:
  "transport_fails (fetch \<lparr> req_method = str ''GET'',
       req_url = apiUrl @ str ''?category='' @ category_value c, req_body = None \<rparr>)
   \<Longrightarrow> ApiProductRepository_findByCategory js fetch now apiUrl c = Inr []"
  by (auto simp: ApiProductRepository_findByCategory_def
      ApiProductRepository_findByCategory_try_def transport_fails_def split: sum.splits)

lemma save_on_failure:
  "save_method js fetch now apiUrl product = Inr m \<Longrightarrow>
   toPrimitives js product = Inr dto \<Longrightarrow>
   transport_fails (fetch (save_request m apiUrl product dto)) \<Longrightarrow>
   ApiProductRepository_save js fetch now apiUrl product
     = Inl (failure (str ''Failed to save product: '') (fetch (save_request m apiUrl product dto)))"
  by (auto simp: ApiProductRepository_save_def ApiProductRepository_save_try_def
      transport_fails_def failure_def split: sum.splits)

lemma delete_on_failure:
  "transport_fails (fetch \<lparr> req_method = str ''DELETE'', req_url = apiUrl @ str ''/'' @ i, req_body = None \<rparr>)
   \<Longrightarrow> ApiProductRepository_delete fetch apiUrl i
     = Inl (failure (str ''Failed to delete product: '')
              (fetch \<lparr> req_method = str ''DELETE'', req_url = apiUrl @ str ''/'' @ i, req_body = None \<rparr>))"
  by (auto simp: ApiProductRepository_delete_def ApiProductRepository_delete_try_def
      transport_fails_def failure_def split: sum.splits)

text \<open>
  Claim C3, as stated, fails: with a transport that rejects every request, \<open>findAll\<close>
  returns the empty array to its caller and no error.
\<close>

theorem findAll_swallows_transport_failure:
  "transport_fails (network_down \<lparr> req_method = str ''GET'', req_url = str ''/api/products'', req_body = None \<rparr>)
   \<and> ApiProductRepository_findAll at_epoch network_down 0 (str ''/api/products'') = Inr []"
  by (simp add: transport_fails_def network_down_def ApiProductRepository_findAll_def
      ApiProductRepository_findAll_try_def)

text \<open>
  Claim C3, amended. When the request of a method fails (\<open>fetch\<close> rejects, or the
  response is not \<open>ok\<close>), the two writing methods \<open>save\<close> and \<open>delete\<close> pass the
  failure on to their caller as an error, whereas the three reading methods catch it:
  \<open>findById\<close> returns \<open>null\<close>, and \<open>findAll\<close> and \<open>findByCategory\<close> return the empty
  array. For \<open>save\<close> the request is the \<open>PUT\<close> or \<open>POST\<close> that it sends after its
  lookup.
\<close>

theorem reads_swallow_and_writes_propagate_transport_failure:
  "(transport_fails (fetch \<lparr> req_method = str ''GET'', req_url = apiUrl @ str ''/'' @ i, req_body = None \<rparr>)
      \<longrightarrow> ApiProductRepository_findById js fetch now apiUrl i = Inr None)
   \<and> (transport_fails (fetch \<lparr> req_method = str ''GET'', req_url = apiUrl, req_body = None \<rparr>)
      \<longrightarrow> ApiProductRepository_findAll js fetch now apiUrl = Inr [])
   \<and> (transport_fails (fetch \<lparr> req_method = str ''GET'',
          req_url = apiUrl @ str ''?category='' @ category_value c, req_body = None \<rparr>)
      \<longrightarrow> ApiProductRepository_findByCategory js fetch now apiUrl c = Inr [])
   \<and> (save_method js fetch now apiUrl product = Inr m \<and> toPrimitives js product = Inr dto
        \<and> transport_fails (fetch (save_request m apiUrl product dto))
      \<longrightarrow> ApiProductRepository_save js fetch now apiUrl product
            = Inl (failure (str ''Failed to save product: '')
                     (fetch (save_request m apiUrl product dto))))
   \<and> (transport_fails (fetch \<lparr> req_method = str ''DELETE'', req_url = apiUrl @ str ''/'' @ i, req_body = None \<rparr>)
      \<longrightarrow> ApiProductRepository_delete fetch apiUrl i
            = Inl (failure (str ''Failed to delete product: '')
                     (fetch \<lparr> req_method = str ''DELETE'', req_url = apiUrl @ str ''/'' @ i,
                              req_body = None \<rparr>)))"
proof (intro conjI impI)
  assume "save_method js fetch now apiUrl product = Inr m \<and> toPrimitives js product = Inr dto
        \<and> transport_fails (fetch (save_request m apiUrl product dto))"
  then show "ApiProductRepository_save js fetch now apiUrl product
            = Inl (failure (str ''Failed to save product: '')
                     (fetch (save_request m apiUrl product dto)))"
    by (simp add: save_on_failure)
qed (simp_all add: findById_on_failure findAll_on_failure findByCategory_on_failure
      delete_on_failure)

lemma smartphone_dto:
  "toPrimitives at_epoch smartphone =
     Inr \<lparr> dto_id = str ''1'', dto_name = str ''Smartphone'',
           dto_description = str ''A high-end smartphone with the latest features'',
           dto_price = Finite (99999 / 100), dto_category = str ''electronics'',
           dto_inStock = True, dto_stockQuantity = Finite 50,
           dto_createdAt = str ''1970-01-01T00:00:00.000Z'',
           dto_updatedAt = str ''1970-01-01T00:00:00.000Z'' \<rparr>"
  by (simp add: toPrimitives_def toISOString_def at_epoch_def smartphone_def)

theorem reads_swallow_and_writes_propagate_transport_failure_witness:
  "ApiProductRepository_findById at_epoch server_error 0 MOCK_API_URL (str ''1'') = Inr None
   \<and> ApiProductRepository_findAll at_epoch server_error 0 MOCK_API_URL = Inr []
   \<and> ApiProductRepository_findByCategory at_epoch server_error 0 MOCK_API_URL
        (ProductCategory (str ''electronics'')) = Inr []
   \<and> ApiProductRepository_save at_epoch server_error 0 MOCK_API_URL smartphone
        = Inl (Error (str ''Failed to save product: Internal Server Error''))
   \<and> ApiProductRepository_delete server_error MOCK_API_URL (str ''1'')
        = Inl (Error (str ''Failed to delete product: Internal Server Error''))"
proof -
  have f: "\<And>r. transport_fails (server_error r)"
    by (simp add: transport_fails_def server_error_def ok_def)
  have m: "save_method at_epoch server_error 0 MOCK_API_URL smartphone = Inr (str ''POST'')"
    by (simp add: save_method_def findById_on_failure[OF f])
  from reads_swallow_and_writes_propagate_transport_failure[of server_error MOCK_API_URL "(str ''1'')"
      at_epoch 0 "ProductCategory (str ''electronics'')" smartphone "(str ''POST'')" _ ]
    f m smartphone_dto
  show ?thesis
    by (simp add: failure_def server_error_def)
qed

section \<open>Properties of the application service\<close>

lemma getProductsByCategory_invalid:
  "ProductCategory_new js c = Inl e \<Longrightarrow> getProductsByCategory js repo c mock = Inr []"
  by (simp add: getProductsByCategory_def)

lemma createProduct_invalid_category:
  "ProductCategory_new js (c_category dto) = Inl e \<Longrightarrow>
     createProduct js repo now uuid dto mock = (Inl e, mock)"
  by (simp add: createProduct_def)

lemma createProduct_invalid_entity:
  "ProductCategory_new js (c_category dto) = Inr cat \<Longrightarrow>
   create now (str_or (c_id dto) uuid) (c_name dto) (c_description dto) (c_price dto) cat
     (c_stockQuantity dto) = Inl e \<Longrightarrow>
   createProduct js repo now uuid dto mock = (Inl e, mock)"
  by (simp add: createProduct_def)

lemma update_details_step_invalid_category:
  "u_category dto = Some c \<Longrightarrow> c \<noteq> [] \<Longrightarrow> ProductCategory_new js c = Inl e \<Longrightarrow>
     update_details_step js now dto p = (Some e, p)"
  by (simp add: update_details_step_def truthy_str_def)

lemma update_details_step_blank_name:
  "u_name dto = Some n \<Longrightarrow> n \<noteq> [] \<Longrightarrow> trim n = [] \<Longrightarrow>
   u_category dto = None \<or> u_category dto = Some []
     \<or> (u_category dto = Some c \<and> ProductCategory_new js c = Inr cat) \<Longrightarrow>
   update_details_step js now dto p = (Some (Error (str ''Product name cannot be empty'')), p)"
  by (auto simp: update_details_step_def truthy_str_def str_or_def updateDetails_def)

lemma update_price_step_negative:
  "u_price dto = Some pr \<Longrightarrow> js_lt pr (Finite 0) \<Longrightarrow>
   update_price_step now dto p = (Some (Error (str ''Price cannot be negative'')), p)"
  by (simp add: update_price_step_def updatePrice_def)

lemma update_stock_step_negative:
  "u_stockQuantity dto = Some q \<Longrightarrow> js_lt q (Finite 0) \<Longrightarrow>
   update_stock_step now dto p = (Some (Error (str ''Stock quantity cannot be negative'')), p)"
  by (simp add: update_stock_step_def updateStock_def)

lemma updateProduct_throws:
  "getProductById repo i mock = Some (src, p) \<Longrightarrow> apply_update js now dto p = (Some e, p') \<Longrightarrow>
     fst (updateProduct js repo now i dto mock) = Inl e"
  by (simp add: updateProduct_def)

lemma smartphone_found_in_fallback:
  "getProductById (ApiProductRepository at_epoch network_down 0 MOCK_API_URL) (str ''1'')
     [smartphone] = Some (FromMock 0, smartphone)"
  by (simp add: getProductById_def ApiProductRepository_def ApiProductRepository_findById_def
      ApiProductRepository_findById_try_def network_down_def find_mock_def smartphone_def)

text \<open>
  Claim C4, as stated, fails: for the category name "gadgets", which the constructor of
  ProductCategory rejects, \<open>getProductsByCategory\<close> returns the empty array to its
  caller and no error.
\<close>

theorem getProductsByCategory_returns_empty_for_invalid_category:
  "ProductCategory_new at_epoch (str ''gadgets'') =
     Inl (Error (str ''Invalid category: gadgets. Valid categories are: electronics, clothing, books, home, sports, toys, food, health, beauty, other''))
   \<and> getProductsByCategory at_epoch (ApiProductRepository at_epoch network_down 0 MOCK_API_URL)
        (str ''gadgets'') [smartphone] = Inr []"
  using gadgets_rejected by (simp add: getProductsByCategory_def)

text \<open>
  Claim C4, amended. Every validation error that a value object or the entity raises
  while \<open>createProduct\<close> or \<open>updateProduct\<close> translate their DTO is passed on to the
  caller of the service: in \<open>createProduct\<close> the error of the constructor of
  ProductCategory and the error of the constructor of Product (a blank name, a negative
  price or stock quantity); in \<open>updateProduct\<close>, for an id that resolves to a product, the
  error of the constructor of ProductCategory for a provided category, "Product name
  cannot be empty" for a provided blank name, and, when the steps before them have
  completed, "Price cannot be negative" and "Stock quantity cannot be negative" for a
  provided negative price or stock quantity. Only \<open>getProductsByCategory\<close> catches the
  error of an invalid category name, and returns the empty array.
\<close>

theorem validation_errors_of_the_service:
  "(ProductCategory_new js c = Inl e \<longrightarrow> getProductsByCategory js repo c mock = Inr [])
   \<and> (ProductCategory_new js (c_category cdto) = Inl e
        \<longrightarrow> createProduct js repo now uuid cdto mock = (Inl e, mock))
   \<and> (ProductCategory_new js (c_category cdto) = Inr cat
        \<and> create now (str_or (c_id cdto) uuid) (c_name cdto) (c_description cdto)
              (c_price cdto) cat (c_stockQuantity cdto) = Inl e
        \<longrightarrow> createProduct js repo now uuid cdto mock = (Inl e, mock))
   \<and> (getProductById repo i mock = Some (src, p)
        \<and> u_category udto = Some c \<and> c \<noteq> [] \<and> ProductCategory_new js c = Inl e
        \<longrightarrow> fst (updateProduct js repo now i udto mock) = Inl e)
   \<and> (getProductById repo i mock = Some (src, p)
        \<and> u_name udto = Some n \<and> n \<noteq> [] \<and> trim n = []
        \<and> (u_category udto = None \<or> u_category udto = Some []
             \<or> (u_category udto = Some c \<and> ProductCategory_new js c = Inr cat))
        \<longrightarrow> fst (updateProduct js repo now i udto mock)
              = Inl (Error (str ''Product name cannot be empty'')))
   \<and> (getProductById repo i mock = Some (src, p)
        \<and> update_details_step js now udto p = (None, p1)
        \<and> u_price udto = Some pr \<and> js_lt pr (Finite 0)
        \<longrightarrow> fst (updateProduct js repo now i udto mock)
              = Inl (Error (str ''Price cannot be negative'')))
   \<and> (getProductById repo i mock = Some (src, p)
        \<and> update_details_step js now udto p = (None, p1)
        \<and> update_price_step now udto p1 = (None, p2)
        \<and> u_stockQuantity udto = Some q \<and> js_lt q (Finite 0)
        \<longrightarrow> fst (updateProduct js repo now i udto mock)
              = Inl (Error (str ''Stock quantity cannot be negative'')))"
proof (intro conjI impI)
  assume "ProductCategory_new js c = Inl e"
  then show "getProductsByCategory js repo c mock = Inr []"
    by (rule getProductsByCategory_invalid)
next
  assume "ProductCategory_new js (c_category cdto) = Inl e"
  then show "createProduct js repo now uuid cdto mock = (Inl e, mock)"
    by (rule createProduct_invalid_category)
next
  assume "ProductCategory_new js (c_category cdto) = Inr cat
        \<and> create now (str_or (c_id cdto) uuid) (c_name cdto) (c_description cdto)
              (c_price cdto) cat (c_stockQuantity cdto) = Inl e"
  then show "createProduct js repo now uuid cdto mock = (Inl e, mock)"
    by (simp add: createProduct_invalid_entity)
next
  assume a: "getProductById repo i mock = Some (src, p)
        \<and> u_category udto = Some c \<and> c \<noteq> [] \<and> ProductCategory_new js c = Inl e"
  then have "update_details_step js now udto p = (Some e, p)"
    by (simp add: update_details_step_invalid_category)
  then have "apply_update js now udto p = (Some e, p)"
    by (simp add: apply_update_def)
  with a show "fst (updateProduct js repo now i udto mock) = Inl e"
    by (simp add: updateProduct_throws)
next
  assume a: "getProductById repo i mock = Some (src, p)
        \<and> u_name udto = Some n \<and> n \<noteq> [] \<and> trim n = []
        \<and> (u_category udto = None \<or> u_category udto = Some []
             \<or> (u_category udto = Some c \<and> ProductCategory_new js c = Inr cat))"
  then have "update_details_step js now udto p
             = (Some (Error (str ''Product name cannot be empty'')), p)"
    using update_details_step_blank_name[of udto n c js cat now p] by blast
  then have "apply_update js now udto p = (Some (Error (str ''Product name cannot be empty'')), p)"
    by (simp add: apply_update_def)
  with a show "fst (updateProduct js repo now i udto mock)
              = Inl (Error (str ''Product name cannot be empty''))"
    using updateProduct_throws by blast
next
  assume a: "getProductById repo i mock = Some (src, p)
        \<and> update_details_step js now udto p = (None, p1)
        \<and> u_price udto = Some pr \<and> js_lt pr (Finite 0)"
  then have "apply_update js now udto p = (Some (Error (str ''Price cannot be negative'')), p1)"
    by (simp add: apply_update_def update_price_step_negative)
  with a show "fst (updateProduct js repo now i udto mock)
              = Inl (Error (str ''Price cannot be negative''))"
    using updateProduct_throws by blast
next
  assume a: "getProductById repo i mock = Some (src, p)
        \<and> update_details_step js now udto p = (None, p1)
        \<and> update_price_step now udto p1 = (None, p2)
        \<and> u_stockQuantity udto = Some q \<and> js_lt q (Finite 0)"
  then have "apply_update js now udto p
             = (Some (Error (str ''Stock quantity cannot be negative'')), p2)"
    by (simp add: apply_update_def update_stock_step_negative)
  with a show "fst (updateProduct js repo now i udto mock)
              = Inl (Error (str ''Stock quantity cannot be negative''))"
    using updateProduct_throws by blast
qed

lemma smartphone_valid: "validateProduct smartphone = None"
  by (simp add: validateProduct_def smartphone_def trim_def isWhiteSpace_def js_lt_def
      unsigned_zero_def)

theorem validation_errors_of_the_service_witness:
  "getProductsByCategory at_epoch (ApiProductRepository at_epoch network_down 0 MOCK_API_URL)
        (str ''gadgets'') [smartphone] = Inr []
   \<and> createProduct at_epoch (ApiProductRepository at_epoch network_down 0 MOCK_API_URL) 0
        (str ''7d4f'')
        \<lparr> c_id = None, c_name = str ''Phone'', c_description = [], c_price = Finite 10,
          c_category = str ''gadgets'', c_stockQuantity = None \<rparr> [smartphone]
       = (Inl (Error (str ''Invalid category: gadgets. Valid categories are: electronics, clothing, books, home, sports, toys, food, health, beauty, other'')),
          [smartphone])
   \<and> createProduct at_epoch (ApiProductRepository at_epoch network_down 0 MOCK_API_URL) 0
        (str ''7d4f'')
        \<lparr> c_id = None, c_name = str ''Phone'', c_description = [], c_price = Finite (- 1),
          c_category = str ''electronics'', c_stockQuantity = None \<rparr> [smartphone]
       = (Inl (Error (str ''Price cannot be negative'')), [smartphone])
   \<and> fst (updateProduct at_epoch (ApiProductRepository at_epoch network_down 0 MOCK_API_URL) 0
        (str ''1'')
        \<lparr> u_name = None, u_description = None, u_price = None,
          u_category = Some (str ''gadgets''), u_stockQuantity = None \<rparr> [smartphone])
       = Inl (Error (str ''Invalid category: gadgets. Valid categories are: electronics, clothing, books, home, sports, toys, food, health, beauty, other''))
   \<and> fst (updateProduct at_epoch (ApiProductRepository at_epoch network_down 0 MOCK_API_URL) 0
        (str ''1'')
        \<lparr> u_name = Some [160], u_description = None, u_price = None,
          u_category = None, u_stockQuantity = None \<rparr> [smartphone])
       = Inl (Error (str ''Product name cannot be empty''))
   \<and> fst (updateProduct at_epoch (ApiProductRepository at_epoch network_down 0 MOCK_API_URL) 0
        (str ''1'')
        \<lparr> u_name = None, u_description = None, u_price = Some (Finite (- 1)),
          u_category = None, u_stockQuantity = None \<rparr> [smartphone])
       = Inl (Error (str ''Price cannot be negative''))
   \<and> fst (updateProduct at_epoch (ApiProductRepository at_epoch network_down 0 MOCK_API_URL) 0
        (str ''1'')
        \<lparr> u_name = None, u_description = None, u_price = None,
          u_category = None, u_stockQuantity = Some (Finite (- 1)) \<rparr> [smartphone])
       = Inl (Error (str ''Stock quantity cannot be negative''))"
proof -
  let ?repo = "ApiProductRepository at_epoch network_down 0 MOCK_API_URL"
  let ?bad = "\<lparr> c_id = None, c_name = str ''Phone'', c_description = [], c_price = Finite 10,
          c_category = str ''gadgets'', c_stockQuantity = None \<rparr>"
  let ?neg = "\<lparr> c_id = None, c_name = str ''Phone'', c_description = [],
          c_price = Finite (- 1), c_category = str ''electronics'', c_stockQuantity = None \<rparr>"
  let ?none = "\<lparr> u_name = None, u_description = None, u_price = None,
          u_category = None, u_stockQuantity = None \<rparr>"
  note g = gadgets_rejected
  note f = smartphone_found_in_fallback
  have neg: "create 0 (str_or (c_id ?neg) (str ''7d4f'')) (c_name ?neg) (c_description ?neg)
               (c_price ?neg) (ProductCategory (str ''electronics'')) (c_stockQuantity ?neg)
             = Inl (Error (str ''Price cannot be negative''))"
    by (simp add: create_def Product_new_def validateProduct_def str_or_def trim_def
        isWhiteSpace_def js_lt_def unsigned_zero_def)
  have d: "\<And>dto. u_name dto = None \<Longrightarrow> u_description dto = None \<Longrightarrow> u_category dto = None
            \<Longrightarrow> update_details_step at_epoch 0 dto smartphone = (None, smartphone)"
    by (simp add: update_details_step_def truthy_str_def)
  have pr: "\<And>dto. u_price dto = None
            \<Longrightarrow> update_price_step 0 dto smartphone = (None, smartphone)"
    by (simp add: update_price_step_def)
  have c1: "getProductsByCategory at_epoch ?repo (str ''gadgets'') [smartphone] = Inr []"
    using validation_errors_of_the_service[of at_epoch "str ''gadgets''" _ ?repo "[smartphone]"] g
    by simp
  have c2: "createProduct at_epoch ?repo 0 (str ''7d4f'') ?bad [smartphone]
       = (Inl (Error (str ''Invalid category: gadgets. Valid categories are: electronics, clothing, books, home, sports, toys, food, health, beauty, other'')),
          [smartphone])"
    using validation_errors_of_the_service[of at_epoch _ _ ?repo "[smartphone]" ?bad 0
        "str ''7d4f''"] g
    by simp
  have c3: "createProduct at_epoch ?repo 0 (str ''7d4f'') ?neg [smartphone]
       = (Inl (Error (str ''Price cannot be negative'')), [smartphone])"
    using validation_errors_of_the_service[of at_epoch _
        "Error (str ''Price cannot be negative'')" ?repo "[smartphone]" ?neg 0 "str ''7d4f''"
        "ProductCategory (str ''electronics'')"] electronics_accepted neg
    by simp
  have c4: "fst (updateProduct at_epoch ?repo 0 (str ''1'')
                  (?none\<lparr> u_category := Some (str ''gadgets'') \<rparr>) [smartphone])
       = Inl (Error (str ''Invalid category: gadgets. Valid categories are: electronics, clothing, books, home, sports, toys, food, health, beauty, other''))"
    using validation_errors_of_the_service[of at_epoch "str ''gadgets''" _ ?repo "[smartphone]"
        _ 0 _ _ "str ''1''" "FromMock 0" smartphone
        "?none\<lparr> u_category := Some (str ''gadgets'') \<rparr>"] g f
    by simp
  have c5: "fst (updateProduct at_epoch ?repo 0 (str ''1'')
                  (?none\<lparr> u_name := Some [160] \<rparr>) [smartphone])
       = Inl (Error (str ''Product name cannot be empty''))"
    using validation_errors_of_the_service[of at_epoch _ _ ?repo "[smartphone]"
        _ 0 _ _ "str ''1''" "FromMock 0" smartphone
        "?none\<lparr> u_name := Some [160] \<rparr>" "[160]"] f
    by (simp add: trim_def isWhiteSpace_def)
  have c6: "fst (updateProduct at_epoch ?repo 0 (str ''1'')
                  (?none\<lparr> u_price := Some (Finite (- 1)) \<rparr>) [smartphone])
       = Inl (Error (str ''Price cannot be negative''))"
    using validation_errors_of_the_service[of at_epoch _ _ ?repo "[smartphone]"
        _ 0 _ _ "str ''1''" "FromMock 0" smartphone
        "?none\<lparr> u_price := Some (Finite (- 1)) \<rparr>" _ smartphone "Finite (- 1)"] f
      d[of "?none\<lparr> u_price := Some (Finite (- 1)) \<rparr>"]
    by (simp add: js_lt_def unsigned_zero_def)
  have c7: "fst (updateProduct at_epoch ?repo 0 (str ''1'')
                  (?none\<lparr> u_stockQuantity := Some (Finite (- 1)) \<rparr>) [smartphone])
       = Inl (Error (str ''Stock quantity cannot be negative''))"
    using validation_errors_of_the_service[of at_epoch _ _ ?repo "[smartphone]"
        _ 0 _ _ "str ''1''" "FromMock 0" smartphone
        "?none\<lparr> u_stockQuantity := Some (Finite (- 1)) \<rparr>" _ smartphone _ smartphone
        "Finite (- 1)"] f
      d[of "?none\<lparr> u_stockQuantity := Some (Finite (- 1)) \<rparr>"]
      pr[of "?none\<lparr> u_stockQuantity := Some (Finite (- 1)) \<rparr>"]
    by (simp add: js_lt_def unsigned_zero_def)
  from c1 c2 c3 c4 c5 c6 c7 show ?thesis by simp
qed

lemma valid_name: "validateProduct p = None \<Longrightarrow> name p \<noteq> [] \<and> trim (name p) \<noteq> []"
  by (auto simp: validateProduct_def split: if_splits)

lemma update_details_step_ok:
  assumes "validateProduct p = None"
    and "case u_name dto of None \<Rightarrow> True | Some n \<Rightarrow> trim n \<noteq> []"
    and "case u_category dto of None \<Rightarrow> True
         | Some c \<Rightarrow> trim c \<noteq> [] \<and> String_toLowerCase js c \<in> set VALID_CATEGORIES"
    and "u_description dto \<noteq> Some []"
  shows "update_details_step js now dto p =
     (None, p\<lparr> name := (case u_name dto of None \<Rightarrow> name p | Some n \<Rightarrow> n),
               description := (case u_description dto of None \<Rightarrow> description p | Some d \<Rightarrow> d),
               category := (case u_category dto of None \<Rightarrow> category p
                            | Some c \<Rightarrow> ProductCategory (String_toLowerCase js c)),
               updatedAt := (if u_name dto \<noteq> None \<or> u_description dto \<noteq> None
                                \<or> u_category dto \<noteq> None
                             then Date now else updatedAt p) \<rparr>)"
  using assms valid_name[OF assms(1)]
  by (cases p)
     (auto simp: update_details_step_def truthy_str_def str_or_def updateDetails_def
        ProductCategory_new_valid dest: trim_nonempty split: option.splits)

lemma apply_update_ok:
  assumes "validateProduct p = None" and "acceptable js dto" and "u_description dto \<noteq> Some []"
  shows "apply_update js now dto p = (None, set_if_provided js now dto p)"
proof -
  from assms(2) have n: "case u_name dto of None \<Rightarrow> True | Some n \<Rightarrow> trim n \<noteq> []"
    and c: "case u_category dto of None \<Rightarrow> True
            | Some c \<Rightarrow> trim c \<noteq> [] \<and> String_toLowerCase js c \<in> set VALID_CATEGORIES"
    and pr: "case u_price dto of None \<Rightarrow> True | Some pr \<Rightarrow> \<not> js_lt pr (Finite 0)"
    and q: "case u_stockQuantity dto of None \<Rightarrow> True | Some q \<Rightarrow> \<not> js_lt q (Finite 0)"
    by (simp_all add: acceptable_def)
  show ?thesis
    unfolding apply_update_def update_details_step_ok[OF assms(1) n c assms(3)]
    using pr q
    by (cases p)
       (auto simp: update_price_step_def update_stock_step_def updatePrice_def updateStock_def
          set_if_provided_def provided_def split: option.splits)
qed

lemma findIndex_none: "findIndex P xs = None \<longleftrightarrow> (\<forall>x \<in> set xs. \<not> P x)"
  by (induction xs) auto

lemma getProductById_none:
  "getProductById repo i mock = None \<longleftrightarrow>
     (\<forall>p. findById repo i \<noteq> Inr (Some p)) \<and> (\<forall>q \<in> set mock. pid q \<noteq> i)"
proof -
  have m: "find_mock i mock = None \<longleftrightarrow> (\<forall>q \<in> set mock. pid q \<noteq> i)"
  proof -
    have "find_mock i mock = None \<longleftrightarrow> findIndex (\<lambda>p. pid p = i) mock = None"
      by (simp add: find_mock_def split: option.splits)
    then show ?thesis by (simp add: findIndex_none)
  qed
  show ?thesis
  proof (cases "findById repo i")
    case (Inl e)
    then show ?thesis by (simp add: getProductById_def m)
  next
    case (Inr r)
    then show ?thesis by (cases r) (simp_all add: getProductById_def m)
  qed
qed

text \<open>
  Claim C6, as stated, fails: an update of the existing product "1" with the DTO
  \<open>{price: -1}\<close> does not return the updated product, it throws "Price cannot be
  negative".
\<close>

theorem updateProduct_rejects_a_negative_price:
  "getProductById (ApiProductRepository at_epoch network_down 0 MOCK_API_URL) (str ''1'')
     [smartphone] = Some (FromMock 0, smartphone)
   \<and> updateProduct at_epoch (ApiProductRepository at_epoch network_down 0 MOCK_API_URL) 0
        (str ''1'')
        \<lparr> u_name = None, u_description = None, u_price = Some (Finite (- 1)),
          u_category = None, u_stockQuantity = None \<rparr> [smartphone]
       = (Inl (Error (str ''Price cannot be negative'')), [smartphone])"
  using smartphone_found_in_fallback
  by (simp add: updateProduct_def apply_update_def update_details_step_def truthy_str_def
      update_price_step_def updatePrice_def js_lt_def unsigned_zero_def write_through_def)

text \<open>
  Claim C6, amended. For an id that resolves to a product, and a DTO whose provided
  values pass the validation of the entity and of the value object (the name and the
  category are not blank, the lower case of the category is one of the ten, the price and
  the stock quantity are not negative) and whose provided strings are not empty,
  \<open>updateProduct\<close> returns the product with exactly the provided fields set and every
  other field as it was; a provided category is stored in lower case, \<open>inStock\<close> follows a
  provided stock quantity and \<open>updatedAt\<close> is stamped when a field was provided. For an
  id that neither the repository nor the fallback list resolves, it returns \<open>null\<close> and
  throws nothing.
\<close>

theorem updateProduct_sets_what_is_provided:
  "(getProductById repo i mock = Some (src, p) \<and> validateProduct p = None
      \<and> acceptable js dto \<and> u_description dto \<noteq> Some []
     \<longrightarrow> fst (updateProduct js repo now i dto mock)
           = Inr (Some (set_if_provided js now dto p)))
   \<and> ((\<forall>p. findById repo i \<noteq> Inr (Some p)) \<and> (\<forall>q \<in> set mock. pid q \<noteq> i)
     \<longrightarrow> updateProduct js repo now i dto mock = (Inr None, mock))"
proof (intro conjI impI)
  assume a: "getProductById repo i mock = Some (src, p) \<and> validateProduct p = None
      \<and> acceptable js dto \<and> u_description dto \<noteq> Some []"
  then have "apply_update js now dto p = (None, set_if_provided js now dto p)"
    by (simp add: apply_update_ok)
  with a show "fst (updateProduct js repo now i dto mock)
               = Inr (Some (set_if_provided js now dto p))"
    by (simp add: updateProduct_def Let_def split: sum.splits option.splits)
next
  assume "(\<forall>p. findById repo i \<noteq> Inr (Some p)) \<and> (\<forall>q \<in> set mock. pid q \<noteq> i)"
  then have "getProductById repo i mock = None"
    by (simp add: getProductById_none)
  then show "updateProduct js repo now i dto mock = (Inr None, mock)"
    by (simp add: updateProduct_def)
qed

theorem updateProduct_sets_what_is_provided_witness:
  "fst (updateProduct at_epoch (ApiProductRepository at_epoch network_down 0 MOCK_API_URL) 5
        (str ''1'')
        \<lparr> u_name = None, u_description = Some (str ''Refurbished''),
          u_price = Some (Finite 0), u_category = Some (str ''Home''),
          u_stockQuantity = Some (Finite 0) \<rparr> [smartphone])
     = Inr (Some \<lparr> pid = str ''1'', name = str ''Smartphone'',
                   description = str ''Refurbished'', price = Finite 0,
                   category = ProductCategory (str ''home''),
                   inStock = False, stockQuantity = Finite 0,
                   createdAt = Date 0, updatedAt = Date 5 \<rparr>)
   \<and> updateProduct at_epoch (ApiProductRepository at_epoch network_down 0 MOCK_API_URL) 5
        (str ''9'')
        \<lparr> u_name = None, u_description = Some (str ''Refurbished''),
          u_price = Some (Finite 0), u_category = Some (str ''Home''),
          u_stockQuantity = Some (Finite 0) \<rparr> [smartphone]
     = (Inr None, [smartphone])"
proof -
  let ?repo = "ApiProductRepository at_epoch network_down 0 MOCK_API_URL"
  let ?dto = "\<lparr> u_name = None, u_description = Some (str ''Refurbished''),
          u_price = Some (Finite 0), u_category = Some (str ''Home''),
          u_stockQuantity = Some (Finite 0) \<rparr>"
  have l: "String_toLowerCase at_epoch (str ''Home'') = str ''home''"
    by (simp add: at_epoch_def lowerUnit_def isCapitalLetter_def KELVIN_SIGN_def)
  have a: "acceptable at_epoch ?dto"
    using l by (simp add: acceptable_def js_lt_def unsigned_zero_def trim_def isWhiteSpace_def
        VALID_CATEGORIES_def)
  have n: "\<forall>p. findById ?repo (str ''9'') \<noteq> Inr (Some p)"
    by (simp add: ApiProductRepository_def ApiProductRepository_findById_def
        ApiProductRepository_findById_try_def network_down_def)
  have m: "\<forall>q \<in> set [smartphone]. pid q \<noteq> str ''9''"
    by (simp add: smartphone_def)
  from updateProduct_sets_what_is_provided[of ?repo "str ''1''" "[smartphone]" "FromMock 0"
      smartphone at_epoch ?dto 5]
    updateProduct_sets_what_is_provided[of ?repo "str ''9''" "[smartphone]" _ _ at_epoch ?dto 5]
    smartphone_found_in_fallback smartphone_valid a n m l
  show ?thesis
    by (simp add: set_if_provided_def provided_def smartphone_def js_gt_def js_lt_def
        unsigned_zero_def)
qed

section \<open>Properties of the route handler POST /api/products\<close>










section \<open>The round trip of a product through its primitives\<close>

lemma lowerUnit_small: "isSmallLetter u \<Longrightarrow> lowerUnit u = u"
  by (simp add: lowerUnit_def isSmallLetter_def isCapitalLetter_def KELVIN_SIGN_def)

lemma lower_case_of_category:
  assumes "unicode_lower_case js" and "c \<in> set VALID_CATEGORIES"
  shows "String_toLowerCase js c = c"
proof -
  from VALID_small[OF assms(2)] have s: "list_all isSmallLetter c" .
  then have m: "map lowerUnit c = c"
    by (induction c) (simp_all add: lowerUnit_small)
  with assms(2) lower_case_valid(2)[OF assms(1), of c] show ?thesis by simp
qed

lemma ProductCategory_new_again:
  assumes "unicode_lower_case js" and "ProductCategory_new js s = Inr c"
  shows "ProductCategory_new js (category_value c) = Inr c"
proof -
  from ProductCategory_new_value[OF assms(2)]
  have v: "category_value c \<in> set VALID_CATEGORIES"
    and c: "c = ProductCategory (category_value c)" by simp_all
  from lower_case_of_category[OF assms(1) v]
  have l: "String_toLowerCase js (category_value c) = category_value c" .
  from VALID_not_blank[OF v] have "trim (category_value c) \<noteq> []" by simp
  from ProductCategory_new_valid[OF this, of js] v l c show ?thesis by simp
qed

lemma stockQuantity_or_0_same:
  "q \<noteq> NaN \<Longrightarrow> q \<noteq> NegZero \<Longrightarrow> stockQuantity_or_0 (Some q) = q"
  by (auto simp: stockQuantity_or_0_def truthy_num_def)

lemma fromPrimitives_of_toPrimitives:
  assumes "unicode_lower_case js" and "ProductCategory_new js s = Inr c"
    and "Product_new i n d pr c q (Date t1) (Date t2) = Inr p"
    and "q \<noteq> NaN" and "q \<noteq> NegZero"
    and "Date_toISOString js t1 \<noteq> []" and "Date_parse js (Date_toISOString js t1) = Date t1"
    and "Date_toISOString js t2 \<noteq> []" and "Date_parse js (Date_toISOString js t2) = Date t2"
    and "toPrimitives js p = Inr dto"
  shows "fromPrimitives js now (as_primitives dto) = Inr p"
proof -
  from assms(3) have p: "p = \<lparr> pid = i, name = n, description = d, price = pr, category = c,
      inStock = js_gt q (Finite 0), stockQuantity = q,
      createdAt = Date t1, updatedAt = Date t2 \<rparr>"
    by (auto simp: Product_new_def Let_def split: option.splits)
  from assms(10) have dto: "dto = \<lparr> dto_id = i, dto_name = n, dto_description = d,
      dto_price = pr, dto_category = category_value c, dto_inStock = js_gt q (Finite 0),
      dto_stockQuantity = q, dto_createdAt = Date_toISOString js t1,
      dto_updatedAt = Date_toISOString js t2 \<rparr>"
    by (simp add: toPrimitives_def toISOString_def p)
  show ?thesis
    using assms(3)
    by (simp add: fromPrimitives_def as_primitives_def dto
        ProductCategory_new_again[OF assms(1,2)]
        stockQuantity_or_0_same[OF assms(4,5)] date_or_now_def assms(6-9))
qed

text \<open>
  Claim C2, as stated, fails: the constructor accepts the stock quantity \<open>NaN\<close>, since
  \<open>NaN < 0\<close> is false, and \<open>fromPrimitives\<close> reads a \<open>NaN\<close> stock quantity as \<open>0\<close>,
  so the DTO after the round trip differs from the DTO before it.
\<close>

theorem stockQuantity_NaN_does_not_round_trip:
  "ProductCategory_new at_epoch (str ''electronics'')
     = Inr (ProductCategory (str ''electronics''))
   \<and> Product_new (str ''1'') (str ''Smartphone'')
        (str ''A high-end smartphone with the latest features'')
        (Finite (99999 / 100)) (ProductCategory (str ''electronics'')) NaN (Date 0) (Date 0)
      = Inr (smartphone\<lparr> inStock := False, stockQuantity := NaN \<rparr>)
   \<and> \<not> round_trips at_epoch 0 (smartphone\<lparr> inStock := False, stockQuantity := NaN \<rparr>)"
proof (intro conjI)
  show c: "ProductCategory_new at_epoch (str ''electronics'')
     = Inr (ProductCategory (str ''electronics''))"
    by (rule electronics_accepted)
  show "Product_new (str ''1'') (str ''Smartphone'')
        (str ''A high-end smartphone with the latest features'')
        (Finite (99999 / 100)) (ProductCategory (str ''electronics'')) NaN (Date 0) (Date 0)
      = Inr (smartphone\<lparr> inStock := False, stockQuantity := NaN \<rparr>)"
    by (simp add: Product_new_def validateProduct_def trim_def isWhiteSpace_def
        js_lt_def unsigned_zero_def js_gt_def smartphone_def)
  have d: "toPrimitives at_epoch (smartphone\<lparr> inStock := False, stockQuantity := NaN \<rparr>)
     = Inr \<lparr> dto_id = str ''1'', dto_name = str ''Smartphone'',
           dto_description = str ''A high-end smartphone with the latest features'',
           dto_price = Finite (99999 / 100), dto_category = str ''electronics'',
           dto_inStock = False, dto_stockQuantity = NaN,
           dto_createdAt = str ''1970-01-01T00:00:00.000Z'',
           dto_updatedAt = str ''1970-01-01T00:00:00.000Z'' \<rparr>"
    by (simp add: toPrimitives_def toISOString_def at_epoch_def smartphone_def)
  have f: "fromPrimitives at_epoch 0
     (as_primitives \<lparr> dto_id = str ''1'', dto_name = str ''Smartphone'',
           dto_description = str ''A high-end smartphone with the latest features'',
           dto_price = Finite (99999 / 100), dto_category = str ''electronics'',
           dto_inStock = False, dto_stockQuantity = NaN,
           dto_createdAt = str ''1970-01-01T00:00:00.000Z'',
           dto_updatedAt = str ''1970-01-01T00:00:00.000Z'' \<rparr>)
     = Inr (smartphone\<lparr> inStock := False, stockQuantity := Finite 0 \<rparr>)"
    using c
    by (simp add: fromPrimitives_def as_primitives_def stockQuantity_or_0_def truthy_num_def
        date_or_now_def Product_new_def validateProduct_def trim_def isWhiteSpace_def
        js_lt_def unsigned_zero_def js_gt_def smartphone_def at_epoch_def)
  have d': "toPrimitives at_epoch (smartphone\<lparr> inStock := False, stockQuantity := Finite 0 \<rparr>)
     = Inr \<lparr> dto_id = str ''1'', dto_name = str ''Smartphone'',
           dto_description = str ''A high-end smartphone with the latest features'',
           dto_price = Finite (99999 / 100), dto_category = str ''electronics'',
           dto_inStock = False, dto_stockQuantity = Finite 0,
           dto_createdAt = str ''1970-01-01T00:00:00.000Z'',
           dto_updatedAt = str ''1970-01-01T00:00:00.000Z'' \<rparr>"
    by (simp add: toPrimitives_def toISOString_def at_epoch_def smartphone_def)
  show "\<not> round_trips at_epoch 0 (smartphone\<lparr> inStock := False, stockQuantity := NaN \<rparr>)"
    using d f d' by (simp add: round_trips_def)
qed

text \<open>
  Claim C2, amended. On a platform whose lower-casing is that of Unicode, for a product
  that the constructor has returned for a constructed category, whose stock quantity is
  neither \<open>NaN\<close> nor the negative zero and whose two timestamps are valid dates that the
  platform renders as non-empty strings and parses back to the same time value,
  \<open>toPrimitives\<close> succeeds, \<open>fromPrimitives\<close> of its result succeeds and yields the same
  entity, and so the same DTO, timestamps included.
\<close>

theorem toPrimitives_fromPrimitives_round_trip:
  assumes "unicode_lower_case js" and "ProductCategory_new js s = Inr c"
    and "Product_new i n d pr c q (Date t1) (Date t2) = Inr p"
    and "q \<noteq> NaN" and "q \<noteq> NegZero"
    and "Date_toISOString js t1 \<noteq> []" and "Date_parse js (Date_toISOString js t1) = Date t1"
    and "Date_toISOString js t2 \<noteq> []" and "Date_parse js (Date_toISOString js t2) = Date t2"
  shows "round_trips js now p
         \<and> (\<forall>dto. toPrimitives js p = Inr dto \<longrightarrow>
               fromPrimitives js now (as_primitives dto) = Inr p)"
proof -
  from assms(3) have "createdAt p = Date t1" "updatedAt p = Date t2"
    by (auto simp: Product_new_def Let_def split: option.splits)
  then obtain dto where dto: "toPrimitives js p = Inr dto"
    by (simp add: toPrimitives_def toISOString_def)
  from fromPrimitives_of_toPrimitives[OF assms]
  have r: "\<forall>dto. toPrimitives js p = Inr dto \<longrightarrow>
               fromPrimitives js now (as_primitives dto) = Inr p" by blast
  with dto show ?thesis
    by (simp add: round_trips_def)
qed

theorem toPrimitives_fromPrimitives_round_trip_witness:
  "round_trips at_epoch 7 smartphone
   \<and> fromPrimitives at_epoch 7
        \<lparr> d_id = str ''1'', d_name = str ''Smartphone'',
          d_description = str ''A high-end smartphone with the latest features'',
          d_price = Finite (99999 / 100), d_category = str ''electronics'',
          d_stockQuantity = Some (Finite 50),
          d_createdAt = Some (str ''1970-01-01T00:00:00.000Z''),
          d_updatedAt = Some (str ''1970-01-01T00:00:00.000Z'') \<rparr> = Inr smartphone"
proof -
  have p: "Product_new (str ''1'') (str ''Smartphone'')
        (str ''A high-end smartphone with the latest features'')
        (Finite (99999 / 100)) (ProductCategory (str ''electronics'')) (Finite 50)
        (Date 0) (Date 0) = Inr smartphone"
    by (simp add: Product_new_def validateProduct_def trim_def isWhiteSpace_def
        js_lt_def unsigned_zero_def js_gt_def smartphone_def)
  have e: "Date_toISOString at_epoch 0 \<noteq> []"
    "Date_parse at_epoch (Date_toISOString at_epoch 0) = Date 0"
    by (simp_all add: at_epoch_def)
  have q: "Finite 50 \<noteq> NaN" "Finite 50 \<noteq> NegZero" by simp_all
  from toPrimitives_fromPrimitives_round_trip[OF at_epoch_lower_case electronics_accepted p
      q e e, of 7] smartphone_dto
  show ?thesis by (simp add: as_primitives_def)
qed

end
